theory Spec2Isabelle
  imports Complex_Main
begin

section \<open>The weather screen: data model\<close>

text \<open>
  A shallow embedding of \<^verbatim>\<open>src/app/(tabs)/weather.tsx\<close>, the component
  \<^verbatim>\<open>TabTwoScreen\<close>. The component keeps five \<^verbatim>\<open>useState\<close> cells and three
  asynchronous flows write them. A flow is modelled as a function from the world before
  the flow to the world after it has settled; the answers of the outside world (the two
  HTTP endpoints and the three functions of \<^verbatim>\<open>expo-location\<close>) are read from an
  environment record. JavaScript numbers are only passed through by this code, never
  computed with, and are modelled as \<^typ>\<open>real\<close>. Strings are \<^typ>\<open>string\<close>.

  Setter calls take effect in program order: React applies queued updates in the order
  of the calls, so the state after a flow is the state after its last setter call. The
  flow functions run a flow from its first statement to its last with no other flow in
  between. \<^verbatim>\<open>handleSearch\<close> does not await the flow it starts, so a second search
  can begin while the first is suspended; for that the search flow is also given in
  stages, cut at its network awaits.
\<close>

text \<open>
  The cell \<^verbatim>\<open>weather\<close> (line 11) has the TypeScript type
  \<^verbatim>\<open>{ temperature: number; windspeed: number; latitude?: number; longitude?: number } | null\<close>.
\<close>

record snapshot =
  temperature :: real
  windspeed :: real
  latitude :: "real option"
  longitude :: "real option"

text \<open>The five state cells of lines 11 to 15; \<open>None\<close> is JavaScript's \<^verbatim>\<open>null\<close>.\<close>

record presentation_state =
  weather :: "snapshot option"
  loading :: bool
  error :: "string option"
  city :: string
  inputCity :: string

definition initialState :: presentation_state where
  "initialState =
     \<lparr>weather = None, loading = False, error = None, city = [], inputCity = []\<rparr>"

subsection \<open>The outside world\<close>

text \<open>
  A value thrown by a collaborator or by the code itself. Every value thrown here is an
  object (an \<^verbatim>\<open>Error\<close> raised by \<^verbatim>\<open>fetch\<close>, by \<^verbatim>\<open>response.json()\<close>, by
  \<^verbatim>\<open>expo-location\<close> or by \<^verbatim>\<open>new Error(...)\<close>), so reading its \<^verbatim>\<open>message\<close>
  in a \<^verbatim>\<open>catch\<close> block does not throw; the message may be missing or empty.
\<close>

datatype js_error = Error (message: "string option")

text \<open>An awaited promise either rejects or fulfils.\<close>

datatype 'a outcome = Throws js_error | Returns 'a

text \<open>
  The \<^verbatim>\<open>Response\<close> of \<^verbatim>\<open>fetch\<close>: the code reads \<^verbatim>\<open>response.ok\<close> and awaits
  \<^verbatim>\<open>response.json()\<close>. A body on which a later property read would throw a
  \<^verbatim>\<open>TypeError\<close> (for instance one without \<^verbatim>\<open>current_weather\<close>) throws inside the
  same \<^verbatim>\<open>try\<close> block before any further setter runs, exactly as a throwing
  \<^verbatim>\<open>json()\<close> does; it is represented by \<open>json = Throws e\<close>.
\<close>

record 'd response =
  ok :: bool
  json :: "'d outcome"

text \<open>
  The forecast body. The code reads \<^verbatim>\<open>data.current_weather.temperature\<close> and
  \<^verbatim>\<open>data.current_weather.windspeed\<close> (lines 29 and 30). The endpoint also echoes
  the coordinate of the grid cell it answered for; the code never reads these two fields.
\<close>

record current_weather_data =
  cw_temperature :: real
  cw_windspeed :: real

record forecast_data =
  echoed_latitude :: real
  echoed_longitude :: real
  current_weather :: current_weather_data

text \<open>
  The geocoding body. \<^verbatim>\<open>data.results\<close> may be missing (line 52); each candidate
  carries \<^verbatim>\<open>latitude\<close>, \<^verbatim>\<open>longitude\<close> and \<^verbatim>\<open>name\<close> (line 53).
\<close>

record candidate =
  cand_latitude :: real
  cand_longitude :: real
  cand_name :: string

record geocoding_data =
  results :: "candidate list option"

text \<open>\<^verbatim>\<open>location.coords\<close> of \<^verbatim>\<open>getCurrentPositionAsync\<close> (lines 88 to 94).\<close>

record location_coords =
  coords_latitude :: real
  coords_longitude :: real

text \<open>A record of \<^verbatim>\<open>reverseGeocodeAsync\<close>; each field is a string or \<^verbatim>\<open>null\<close> (line 99).\<close>

record place =
  place_city :: "string option"
  place_region :: "string option"
  place_country :: "string option"

text \<open>
  What the collaborators answer during one flow. Each flow calls each collaborator at most
  once, so one environment per invocation describes any behaviour of the outside world.
  \<open>fetch_geocoding\<close> is \<^verbatim>\<open>fetch\<close> on the geocoding URL of line 48, a function of the
  city name; \<open>fetch_forecast\<close> is \<^verbatim>\<open>fetch\<close> on the forecast URL of line 24, a
  function of latitude and longitude. \<open>requestForegroundPermissionsAsync\<close> yields the
  \<^verbatim>\<open>status\<close> field of its result. \<open>reverseGeocodeAsync\<close> may yield a nullish value
  (\<open>None\<close>), which line 96 guards against.
\<close>

record env =
  fetch_geocoding :: "string \<Rightarrow> geocoding_data response outcome"
  fetch_forecast :: "real \<Rightarrow> real \<Rightarrow> forecast_data response outcome"
  requestForegroundPermissionsAsync :: "string outcome"
  getCurrentPositionAsync :: "location_coords outcome"
  reverseGeocodeAsync :: "real \<Rightarrow> real \<Rightarrow> place list option outcome"

subsection \<open>The world: state cells and a chronological trace\<close>

text \<open>
  The calls a flow makes to the outside world, each a point where the flow suspends.
\<close>

datatype ext_call =
    FetchGeocoding string
  | FetchForecast real real
  | RequestForegroundPermissions
  | GetCurrentPosition
  | ReverseGeocode real real

text \<open>
  The trace records, in program order, every call of a state setter (with the state it
  leaves) and every external call.
\<close>

datatype event = Mutated presentation_state | Called ext_call

record world =
  ui :: presentation_state
  trace :: "event list"

definition mutate :: "(presentation_state \<Rightarrow> presentation_state) \<Rightarrow> world \<Rightarrow> world" where
  "mutate f w = \<lparr>ui = f (ui w), trace = trace w @ [Mutated (f (ui w))]\<rparr>"

definition called :: "ext_call \<Rightarrow> world \<Rightarrow> world" where
  "called c w = w\<lparr>trace := trace w @ [Called c]\<rparr>"

definition setWeather :: "snapshot option \<Rightarrow> world \<Rightarrow> world" where
  "setWeather v = mutate (\<lambda>s. s\<lparr>weather := v\<rparr>)"

definition setLoading :: "bool \<Rightarrow> world \<Rightarrow> world" where
  "setLoading v = mutate (\<lambda>s. s\<lparr>loading := v\<rparr>)"

definition setError :: "string option \<Rightarrow> world \<Rightarrow> world" where
  "setError v = mutate (\<lambda>s. s\<lparr>error := v\<rparr>)"

definition setCity :: "string \<Rightarrow> world \<Rightarrow> world" where
  "setCity v = mutate (\<lambda>s. s\<lparr>city := v\<rparr>)"

definition setInputCity :: "string \<Rightarrow> world \<Rightarrow> world" where
  "setInputCity v = mutate (\<lambda>s. s\<lparr>inputCity := v\<rparr>)"

text \<open>The events a flow appended, and the external calls among them.\<close>

definition new_events :: "world \<Rightarrow> world \<Rightarrow> event list" where
  "new_events w w' = drop (length (trace w)) (trace w')"

fun calls_of :: "event list \<Rightarrow> ext_call list" where
  "calls_of [] = []"
| "calls_of (Called c # es) = c # calls_of es"
| "calls_of (Mutated s # es) = calls_of es"

text \<open>
  \<open>clear_at_calls s es\<close>: walking the events \<open>es\<close> from state \<open>s\<close>, the state at each
  external call has the loading flag up and neither a snapshot nor an error.
\<close>

fun clear_at_calls :: "presentation_state \<Rightarrow> event list \<Rightarrow> bool" where
  "clear_at_calls s [] = True"
| "clear_at_calls s (Mutated s' # es) = clear_at_calls s' es"
| "clear_at_calls s (Called c # es) =
     (loading s \<and> weather s = None \<and> error s = None \<and> clear_at_calls s es)"

subsection \<open>JavaScript helpers\<close>

text \<open>
  \<^verbatim>\<open>a || b\<close> on a string that may be \<^verbatim>\<open>null\<close> or \<^verbatim>\<open>undefined\<close>: the left
  operand when it is a non-empty string, else the right one.
\<close>

definition or_else :: "string option \<Rightarrow> string \<Rightarrow> string" where
  "or_else a b = (case a of None \<Rightarrow> b | Some s \<Rightarrow> if s = [] then b else s)"

text \<open>
  \<^verbatim>\<open>String.prototype.trim\<close> removes white space and line terminators from both ends.
  Of ECMAScript's set, the code units that fit a \<^typ>\<open>char\<close> are U+0009 to U+000D,
  U+0020 and U+00A0.
\<close>

definition is_white_space :: "char \<Rightarrow> bool" where
  "is_white_space c =
     (let n = (of_char c :: nat) in (9 \<le> n \<and> n \<le> 13) \<or> n = 32 \<or> n = 160)"

definition trim :: "string \<Rightarrow> string" where
  "trim s = rev (dropWhile is_white_space (rev (dropWhile is_white_space s)))"

section \<open>The flows\<close>

subsection \<open>\<^verbatim>\<open>fetchWeatherByCoords\<close>, lines 18 to 39\<close>

text \<open>
  The \<^verbatim>\<open>try\<close> block (lines 20 to 33): the world it leaves, and the value thrown if
  it ended by a throw.
\<close>

definition fetchWeatherByCoords_try ::
  "env \<Rightarrow> real \<Rightarrow> real \<Rightarrow> world \<Rightarrow> js_error option \<times> world" where
  "fetchWeatherByCoords_try e lat lon w =
     (let w1 = setLoading True w;
          w2 = setError None w1;
          w3 = setWeather None w2;
          w4 = called (FetchForecast lat lon) w3
      in case fetch_forecast e lat lon of
           Throws err \<Rightarrow> (Some err, w4)
         | Returns response \<Rightarrow>
             if \<not> ok response then (Some (Error (Some ''Failed to fetch weather'')), w4)
             else (case json response of
                     Throws err \<Rightarrow> (Some err, w4)
                   | Returns data \<Rightarrow>
                       (None,
                        setWeather
                          (Some \<lparr>temperature = cw_temperature (current_weather data),
                                 windspeed = cw_windspeed (current_weather data),
                                 latitude = Some lat,
                                 longitude = Some lon\<rparr>) w4)))"

text \<open>The \<^verbatim>\<open>catch\<close> block (line 35) and the \<^verbatim>\<open>finally\<close> block (line 37).\<close>

definition fetchWeatherByCoords :: "env \<Rightarrow> real \<Rightarrow> real \<Rightarrow> world \<Rightarrow> world" where
  "fetchWeatherByCoords e lat lon w =
     (case fetchWeatherByCoords_try e lat lon w of
        (thrown, w') \<Rightarrow>
          setLoading False
            (case thrown of
               None \<Rightarrow> w'
             | Some err \<Rightarrow> setError (Some (or_else (message err) ''Unknown error'')) w'))"

subsection \<open>\<^verbatim>\<open>fetchCoordsByCity\<close>, lines 42 to 61\<close>

definition fetchCoordsByCity_try ::
  "env \<Rightarrow> string \<Rightarrow> world \<Rightarrow> js_error option \<times> world" where
  "fetchCoordsByCity_try e cityName w =
     (let w1 = setLoading True w;
          w2 = setError None w1;
          w3 = setWeather None w2;
          w4 = called (FetchGeocoding cityName) w3
      in case fetch_geocoding e cityName of
           Throws err \<Rightarrow> (Some err, w4)
         | Returns response \<Rightarrow>
             if \<not> ok response
             then (Some (Error (Some ''Failed to fetch city coordinates'')), w4)
             else (case json response of
                     Throws err \<Rightarrow> (Some err, w4)
                   | Returns data \<Rightarrow>
                       (case results data of
                          None \<Rightarrow> (Some (Error (Some ''City not found'')), w4)
                        | Some [] \<Rightarrow> (Some (Error (Some ''City not found'')), w4)
                        | Some (c # cs) \<Rightarrow>
                            (None,
                             fetchWeatherByCoords e (cand_latitude c) (cand_longitude c)
                               (setCity (cand_name c) w4)))))"

definition fetchCoordsByCity :: "env \<Rightarrow> string \<Rightarrow> world \<Rightarrow> world" where
  "fetchCoordsByCity e cityName w =
     (case fetchCoordsByCity_try e cityName w of
        (thrown, w') \<Rightarrow>
          setLoading False
            (case thrown of
               None \<Rightarrow> w'
             | Some err \<Rightarrow> setError (Some (or_else (message err) ''Unknown error'')) w'))"

subsection \<open>The mount effect, lines 64 to 67\<close>

definition mountEffect :: "env \<Rightarrow> world \<Rightarrow> world" where
  "mountEffect e w = fetchWeatherByCoords e 52.52 13.41 (setCity ''Berlin'' w)"

subsection \<open>\<^verbatim>\<open>handleSearch\<close>, lines 70 to 74\<close>

text \<open>A string is truthy when it is not empty.\<close>

definition handleSearch :: "env \<Rightarrow> world \<Rightarrow> world" where
  "handleSearch e w =
     (if trim (inputCity (ui w)) \<noteq> []
      then fetchCoordsByCity e (trim (inputCity (ui w))) w
      else w)"

subsection \<open>\<^verbatim>\<open>handleLocateMe\<close>, lines 77 to 111\<close>

text \<open>
  The inner \<^verbatim>\<open>try\<close>/\<^verbatim>\<open>catch\<close> of lines 91 to 105. The \<^verbatim>\<open>catch\<close> binds no
  variable and only sets the city, so the block never throws.
\<close>

definition reverseGeocodeStep :: "env \<Rightarrow> location_coords \<Rightarrow> world \<Rightarrow> world" where
  "reverseGeocodeStep e coords w =
     (let w1 = called (ReverseGeocode (coords_latitude coords) (coords_longitude coords)) w
      in case reverseGeocodeAsync e (coords_latitude coords) (coords_longitude coords) of
           Throws err \<Rightarrow> setCity ''Your Location'' w1
         | Returns None \<Rightarrow> setCity ''Your Location'' w1
         | Returns (Some []) \<Rightarrow> setCity ''Your Location'' w1
         | Returns (Some (p # ps)) \<Rightarrow>
             setCity
               (or_else (place_city p)
                  (or_else (place_region p)
                     (or_else (place_country p) ''Your Location''))) w1)"

text \<open>
  The outer \<^verbatim>\<open>try\<close> block (lines 79 to 106). The early \<^verbatim>\<open>return\<close> of line 86
  leaves the block without a throw. The \<^verbatim>\<open>console.log\<close> calls write no state.
\<close>

definition handleLocateMe_try :: "env \<Rightarrow> world \<Rightarrow> js_error option \<times> world" where
  "handleLocateMe_try e w =
     (let w1 = setLoading True w;
          w2 = setError None w1;
          w3 = setWeather None w2;
          w4 = called RequestForegroundPermissions w3
      in case requestForegroundPermissionsAsync e of
           Throws err \<Rightarrow> (Some err, w4)
         | Returns status \<Rightarrow>
             if status \<noteq> ''granted''
             then (None,
                   setLoading False
                     (setError (Some ''Permission to access location was denied'') w4))
             else (let w5 = called GetCurrentPosition w4
                   in case getCurrentPositionAsync e of
                        Throws err \<Rightarrow> (Some err, w5)
                      | Returns coords \<Rightarrow>
                          (None,
                           fetchWeatherByCoords e
                             (coords_latitude coords) (coords_longitude coords)
                             (reverseGeocodeStep e coords w5))))"

text \<open>The \<^verbatim>\<open>catch\<close> block of lines 107 to 110; there is no \<^verbatim>\<open>finally\<close>.\<close>

definition handleLocateMe :: "env \<Rightarrow> world \<Rightarrow> world" where
  "handleLocateMe e w =
     (case handleLocateMe_try e w of
        (None, w') \<Rightarrow> w'
      | (Some err, w') \<Rightarrow>
          setLoading False
            (setError (Some (or_else (message err) ''Could not get location'')) w'))"

section \<open>The search flow in stages\<close>

text \<open>
  \<^verbatim>\<open>handleSearch\<close> calls \<^verbatim>\<open>fetchCoordsByCity\<close> without awaiting it (line 72), so
  the handler returns as soon as the flow reaches its first \<^verbatim>\<open>await\<close>, and a second
  call of the handler then runs while the first flow is suspended. The stages below cut
  \<^verbatim>\<open>fetchCoordsByCity\<close> and the \<^verbatim>\<open>fetchWeatherByCoords\<close> it awaits at their two
  network exchanges; each stage takes the answer of the exchange it was waiting for.
  An exchange (\<^verbatim>\<open>fetch\<close> and the \<^verbatim>\<open>json()\<close> that follows it) is resumed in one
  piece, and so are the inner and the outer \<^verbatim>\<open>finally\<close>.
\<close>

text \<open>Lines 20 to 25: up to the \<^verbatim>\<open>await\<close> of the forecast exchange.\<close>

definition fetchWeatherByCoords_begin :: "real \<Rightarrow> real \<Rightarrow> world \<Rightarrow> world" where
  "fetchWeatherByCoords_begin lat lon w =
     called (FetchForecast lat lon) (setWeather None (setError None (setLoading True w)))"

text \<open>Lines 26 to 38: the rest of the \<^verbatim>\<open>try\<close> block, the \<^verbatim>\<open>catch\<close> and the \<^verbatim>\<open>finally\<close>.\<close>

definition fetchWeatherByCoords_resume ::
  "real \<Rightarrow> real \<Rightarrow> forecast_data response outcome \<Rightarrow> world \<Rightarrow> world" where
  "fetchWeatherByCoords_resume lat lon answer w =
     (case (case answer of
              Throws err \<Rightarrow> (Some err, w)
            | Returns response \<Rightarrow>
                if \<not> ok response then (Some (Error (Some ''Failed to fetch weather'')), w)
                else (case json response of
                        Throws err \<Rightarrow> (Some err, w)
                      | Returns data \<Rightarrow>
                          (None,
                           setWeather
                             (Some \<lparr>temperature = cw_temperature (current_weather data),
                                    windspeed = cw_windspeed (current_weather data),
                                    latitude = Some lat,
                                    longitude = Some lon\<rparr>) w))) of
        (thrown, w') \<Rightarrow>
          setLoading False
            (case thrown of
               None \<Rightarrow> w'
             | Some err \<Rightarrow> setError (Some (or_else (message err) ''Unknown error'')) w'))"

text \<open>Lines 44 to 49: up to the \<^verbatim>\<open>await\<close> of the geocoding exchange.\<close>

definition fetchCoordsByCity_begin :: "string \<Rightarrow> world \<Rightarrow> world" where
  "fetchCoordsByCity_begin cityName w =
     called (FetchGeocoding cityName) (setWeather None (setError None (setLoading True w)))"

text \<open>
  Lines 50 to 55 with the geocoding answer in hand. Either the flow throws and settles
  through its \<^verbatim>\<open>catch\<close> and \<^verbatim>\<open>finally\<close> (no coordinate is returned), or it sets
  the city, starts \<^verbatim>\<open>fetchWeatherByCoords\<close> and is suspended again, waiting for the
  forecast of the coordinate returned.
\<close>

definition fetchCoordsByCity_resume ::
  "geocoding_data response outcome \<Rightarrow> world \<Rightarrow> (real \<times> real) option \<times> world" where
  "fetchCoordsByCity_resume answer w =
     (case (case answer of
              Throws err \<Rightarrow> Inl err
            | Returns response \<Rightarrow>
                if \<not> ok response then Inl (Error (Some ''Failed to fetch city coordinates''))
                else (case json response of
                        Throws err \<Rightarrow> Inl err
                      | Returns data \<Rightarrow>
                          (case results data of
                             None \<Rightarrow> Inl (Error (Some ''City not found''))
                           | Some [] \<Rightarrow> Inl (Error (Some ''City not found''))
                           | Some (c # cs) \<Rightarrow> Inr c))) of
        Inl err \<Rightarrow>
          (None,
           setLoading False (setError (Some (or_else (message err) ''Unknown error'')) w))
      | Inr c \<Rightarrow>
          (Some (cand_latitude c, cand_longitude c),
           fetchWeatherByCoords_begin (cand_latitude c) (cand_longitude c)
             (setCity (cand_name c) w)))"

text \<open>
  The forecast answer arrives: \<^verbatim>\<open>fetchWeatherByCoords\<close> runs to its end and the
  \<^verbatim>\<open>finally\<close> of \<^verbatim>\<open>fetchCoordsByCity\<close> (line 59) follows.
\<close>

definition fetchCoordsByCity_finish ::
  "real \<Rightarrow> real \<Rightarrow> forecast_data response outcome \<Rightarrow> world \<Rightarrow> world" where
  "fetchCoordsByCity_finish lat lon answer w =
     setLoading False (fetchWeatherByCoords_resume lat lon answer w)"

text \<open>
  \<^verbatim>\<open>handleSearch\<close> called twice in immediate sequence. Both calls read the same
  \<^verbatim>\<open>inputCity\<close> and each runs to its first \<^verbatim>\<open>await\<close> before any answer can
  arrive. The answers then arrive in the order of the calls: the two geocoding answers,
  then the two forecast answers. \<open>e1\<close> holds what the first call's requests are
  answered, \<open>e2\<close> what the second call's are.
\<close>

definition handleSearch_overlapped :: "env \<Rightarrow> env \<Rightarrow> world \<Rightarrow> world" where
  "handleSearch_overlapped e1 e2 w =
     (if trim (inputCity (ui w)) \<noteq> [] then
        (let n = trim (inputCity (ui w));
             w1 = fetchCoordsByCity_begin n w;
             w2 = fetchCoordsByCity_begin n w1
         in case fetchCoordsByCity_resume (fetch_geocoding e1 n) w2 of
              (p1, w3) \<Rightarrow>
                (case fetchCoordsByCity_resume (fetch_geocoding e2 n) w3 of
                   (p2, w4) \<Rightarrow>
                     (let w5 = (case p1 of
                                  None \<Rightarrow> w4
                                | Some (lat, lon) \<Rightarrow>
                                    fetchCoordsByCity_finish lat lon
                                      (fetch_forecast e1 lat lon) w4)
                      in case p2 of
                           None \<Rightarrow> w5
                         | Some (lat, lon) \<Rightarrow>
                             fetchCoordsByCity_finish lat lon
                               (fetch_forecast e2 lat lon) w5)))
      else w)"

section \<open>Answers of the outside world, classified\<close>

text \<open>
  An HTTP exchange fails when \<^verbatim>\<open>fetch\<close> rejects, when the status is not a success,
  or when the body cannot be read.
\<close>

definition http_fails :: "'d response outcome \<Rightarrow> bool" where
  "http_fails a =
     (case a of
        Throws err \<Rightarrow> True
      | Returns r \<Rightarrow>
          (if ok r then (case json r of Throws err \<Rightarrow> True | Returns d \<Rightarrow> False)
           else True))"

text \<open>
  Forward geocoding fails when the exchange fails or the body holds no candidate
  (the list is missing or empty).
\<close>

definition geocoding_fails :: "geocoding_data response outcome \<Rightarrow> bool" where
  "geocoding_fails a =
     (case a of
        Throws err \<Rightarrow> True
      | Returns r \<Rightarrow>
          (if ok r
           then (case json r of
                   Throws err \<Rightarrow> True
                 | Returns d \<Rightarrow>
                     (case results d of None \<Rightarrow> True | Some cs \<Rightarrow> cs = []))
           else True))"

text \<open>A field of a place record counts when it is a non-empty string.\<close>

definition present :: "string option \<Rightarrow> bool" where
  "present a = (case a of None \<Rightarrow> False | Some s \<Rightarrow> s \<noteq> [])"

section \<open>Sample worlds and environments\<close>

definition fresh :: world where
  "fresh = \<lparr>ui = initialState, trace = []\<rparr>"

definition paris :: candidate where
  "paris = \<lparr>cand_latitude = 48.8566, cand_longitude = 2.3522, cand_name = ''Paris''\<rparr>"

text \<open>
  Every collaborator answers; the forecast echoes a grid coordinate that differs from the
  one asked for, and the reverse geocoder knows region and country but no city.
\<close>

definition paris_env :: env where
  "paris_env =
     \<lparr>fetch_geocoding =
        (\<lambda>n. Returns \<lparr>ok = True, json = Returns \<lparr>results = Some [paris]\<rparr>\<rparr>),
      fetch_forecast =
        (\<lambda>lat lon.
           Returns
             \<lparr>ok = True,
              json =
                Returns
                  \<lparr>echoed_latitude = 48.86, echoed_longitude = 2.34,
                   current_weather = \<lparr>cw_temperature = 18.2, cw_windspeed = 9.4\<rparr>\<rparr>\<rparr>),
      requestForegroundPermissionsAsync = Returns ''granted'',
      getCurrentPositionAsync =
        Returns \<lparr>coords_latitude = 48.8566, coords_longitude = 2.3522\<rparr>,
      reverseGeocodeAsync =
        (\<lambda>lat lon.
           Returns
             (Some [\<lparr>place_city = None, place_region = Some ''Ile-de-France'',
                     place_country = Some ''France''\<rparr>]))\<rparr>"

definition offline :: js_error where
  "offline = Error (Some ''Network request failed'')"

definition offline_env :: env where
  "offline_env =
     \<lparr>fetch_geocoding = (\<lambda>n. Throws offline),
      fetch_forecast = (\<lambda>lat lon. Throws offline),
      requestForegroundPermissionsAsync = Returns ''granted'',
      getCurrentPositionAsync =
        Returns \<lparr>coords_latitude = 48.8566, coords_longitude = 2.3522\<rparr>,
      reverseGeocodeAsync = (\<lambda>lat lon. Throws offline)\<rparr>"

definition denied_env :: env where
  "denied_env = paris_env\<lparr>requestForegroundPermissionsAsync := Returns ''denied''\<rparr>"

definition unknown_city_env :: env where
  "unknown_city_env =
     paris_env
       \<lparr>fetch_geocoding :=
          (\<lambda>n. Returns \<lparr>ok = True, json = Returns \<lparr>results = Some []\<rparr>\<rparr>)\<rparr>"

definition no_forecast_env :: env where
  "no_forecast_env =
     paris_env\<lparr>fetch_forecast := (\<lambda>lat lon. Returns \<lparr>ok = False, json = Throws offline\<rparr>)\<rparr>"

definition no_reverse_env :: env where
  "no_reverse_env = paris_env\<lparr>reverseGeocodeAsync := (\<lambda>lat lon. Throws offline)\<rparr>"

definition forecast_down_env :: env where
  "forecast_down_env = paris_env\<lparr>fetch_forecast := (\<lambda>lat lon. Throws offline)\<rparr>"

text \<open>The world after \<^verbatim>\<open>Paris\<close> was typed and found: it holds a snapshot.\<close>

definition after_paris :: world where
  "after_paris = handleSearch paris_env (setInputCity ''Paris'' fresh)"

section \<open>Facts about the flows\<close>

subsection \<open>Setters and traces\<close>

lemma ui_mutate [simp]: "ui (mutate f w) = f (ui w)"
  by (simp add: mutate_def)

lemma trace_mutate [simp]: "trace (mutate f w) = trace w @ [Mutated (f (ui w))]"
  by (simp add: mutate_def)

lemma ui_called [simp]: "ui (called c w) = ui w"
  by (simp add: called_def)

lemma trace_called [simp]: "trace (called c w) = trace w @ [Called c]"
  by (simp add: called_def)

lemmas setters = setLoading_def setError_def setWeather_def setCity_def setInputCity_def

lemma calls_of_append: "calls_of (xs @ ys) = calls_of xs @ calls_of ys"
  by (induction xs rule: calls_of.induct) simp_all

lemma clear_without_calls: "calls_of es = [] \<Longrightarrow> clear_at_calls s es"
  by (induction s es rule: clear_at_calls.induct) simp_all

subsection \<open>JavaScript helpers\<close>

lemma or_else_nonempty: "b \<noteq> [] \<Longrightarrow> or_else a b \<noteq> []"
  by (simp add: or_else_def split: option.split)

lemma or_else_present: "or_else a b = (if present a then the a else b)"
  by (simp add: or_else_def present_def split: option.split)

lemma dropWhile_all: "(\<forall>x\<in>set (dropWhile P xs). P x) \<longleftrightarrow> (\<forall>x\<in>set xs. P x)"
proof
  assume all: "\<forall>x\<in>set (dropWhile P xs). P x"
  have "dropWhile P xs = []"
  proof (rule ccontr)
    assume ne: "dropWhile P xs \<noteq> []"
    then have "\<not> P (hd (dropWhile P xs))" by (rule hd_dropWhile)
    moreover from ne have "hd (dropWhile P xs) \<in> set (dropWhile P xs)" by simp
    ultimately show False using all by blast
  qed
  then show "\<forall>x\<in>set xs. P x" by (simp add: dropWhile_eq_Nil_conv)
next
  assume "\<forall>x\<in>set xs. P x"
  then show "\<forall>x\<in>set (dropWhile P xs). P x" by (auto dest: set_dropWhileD)
qed

lemma trim_empty_iff: "trim s = [] \<longleftrightarrow> (\<forall>c\<in>set s. is_white_space c)"
  by (simp add: trim_def dropWhile_eq_Nil_conv dropWhile_all)

lemma trim_Paris: "trim ''Paris'' = ''Paris''"
  by (simp add: trim_def is_white_space_def)

subsection \<open>\<^verbatim>\<open>fetchWeatherByCoords\<close>\<close>

text \<open>
  The state the function leaves, one lemma for each way the forecast exchange can end,
  and then the events it appends.
\<close>

lemma fetchWeather_ui_ok:
  "fetch_forecast e lat lon = Returns r \<Longrightarrow> ok r \<Longrightarrow> json r = Returns d \<Longrightarrow>
   ui (fetchWeatherByCoords e lat lon w) =
     (ui w)\<lparr>loading := False, error := None,
       weather := Some \<lparr>temperature = cw_temperature (current_weather d),
                 windspeed = cw_windspeed (current_weather d),
                 latitude = Some lat, longitude = Some lon\<rparr>\<rparr>"
  by (simp add: fetchWeatherByCoords_def fetchWeatherByCoords_try_def setters)

lemma fetchWeather_ui_answer:
  "fetch_forecast e lat lon = Returns \<lparr>ok = True, json = Returns d\<rparr> \<Longrightarrow>
   ui (fetchWeatherByCoords e lat lon w) =
     (ui w)\<lparr>loading := False, error := None,
       weather := Some \<lparr>temperature = cw_temperature (current_weather d),
                 windspeed = cw_windspeed (current_weather d),
                 latitude = Some lat, longitude = Some lon\<rparr>\<rparr>"
  by (erule fetchWeather_ui_ok) simp_all

lemma fetchWeather_ui_throws:
  "fetch_forecast e lat lon = Throws err \<Longrightarrow>
   ui (fetchWeatherByCoords e lat lon w) =
     (ui w)\<lparr>loading := False, error := Some (or_else (message err) ''Unknown error''), weather := None\<rparr>"
  by (simp add: fetchWeatherByCoords_def fetchWeatherByCoords_try_def setters)

lemma fetchWeather_ui_not_ok:
  "fetch_forecast e lat lon = Returns r \<Longrightarrow> \<not> ok r \<Longrightarrow>
   ui (fetchWeatherByCoords e lat lon w) =
     (ui w)\<lparr>loading := False, error := Some ''Failed to fetch weather'', weather := None\<rparr>"
  by (simp add: fetchWeatherByCoords_def fetchWeatherByCoords_try_def setters or_else_def)

lemma fetchWeather_ui_json_throws:
  "fetch_forecast e lat lon = Returns r \<Longrightarrow> ok r \<Longrightarrow> json r = Throws err \<Longrightarrow>
   ui (fetchWeatherByCoords e lat lon w) =
     (ui w)\<lparr>loading := False, error := Some (or_else (message err) ''Unknown error''), weather := None\<rparr>"
  by (simp add: fetchWeatherByCoords_def fetchWeatherByCoords_try_def setters)

lemma fetchWeather_loading: "\<not> loading (ui (fetchWeatherByCoords e lat lon w))"
  by (simp add: fetchWeatherByCoords_def setters split: prod.split option.split)

lemma fetchWeather_frame: "city (ui (fetchWeatherByCoords e lat lon w)) = city (ui w) \<and>
    inputCity (ui (fetchWeatherByCoords e lat lon w)) = inputCity (ui w)"
  by (simp add: fetchWeatherByCoords_def fetchWeatherByCoords_try_def setters Let_def split: outcome.split)

lemma fetchWeather_ui_shape:
  "\<exists>E W. (\<forall>w. ui (fetchWeatherByCoords e lat lon w) =
                  (ui w)\<lparr>loading := False, error := E, weather := W\<rparr>)
         \<and> ((W = None) \<noteq> (E = None))"
proof (cases "fetch_forecast e lat lon")
  case (Throws err)
  show ?thesis using fetchWeather_ui_throws [OF Throws] by blast
next
  case (Returns r)
  show ?thesis
  proof (cases "ok r")
    case False
    show ?thesis using fetchWeather_ui_not_ok [OF Returns False] by blast
  next
    case True
    show ?thesis
    proof (cases "json r")
      case (Throws err)
      show ?thesis using fetchWeather_ui_json_throws [OF Returns True Throws] by blast
    next
      case body: (Returns d)
      show ?thesis using fetchWeather_ui_ok [OF Returns True body] by blast
    qed
  qed
qed

lemma fetchWeather_error_any_world:
  "error (ui (fetchWeatherByCoords e lat lon w)) = error (ui (fetchWeatherByCoords e lat lon v))"
  using fetchWeather_ui_shape [of e lat lon] by auto

lemma fetchWeather_fails:
  assumes "http_fails (fetch_forecast e lat lon)"
  shows "weather (ui (fetchWeatherByCoords e lat lon w)) = None \<and>
         error (ui (fetchWeatherByCoords e lat lon w)) \<noteq> None"
proof (cases "fetch_forecast e lat lon")
  case (Throws err)
  show ?thesis by (simp add: fetchWeather_ui_throws [OF Throws])
next
  case (Returns r)
  show ?thesis
  proof (cases "ok r")
    case False
    show ?thesis by (simp add: fetchWeather_ui_not_ok [OF Returns False])
  next
    case True
    from assms Returns True obtain err where "json r = Throws err"
      by (cases "json r") (simp_all add: http_fails_def)
    then show ?thesis by (simp add: fetchWeather_ui_json_throws [OF Returns True])
  qed
qed

lemma fetchWeather_ignores_reverse:
  "fetchWeatherByCoords (e\<lparr>reverseGeocodeAsync := g\<rparr>) lat lon w = fetchWeatherByCoords e lat lon w"
  by (simp add: fetchWeatherByCoords_def fetchWeatherByCoords_try_def)

lemma fetchWeather_trace:
  "\<exists>es. trace (fetchWeatherByCoords e lat lon w) =
          trace w @ [Mutated ((ui w)\<lparr>loading := True\<rparr>),
                     Mutated ((ui w)\<lparr>loading := True, error := None\<rparr>),
                     Mutated ((ui w)\<lparr>loading := True, error := None, weather := None\<rparr>),
                     Called (FetchForecast lat lon)] @ es
        \<and> calls_of es = []"
  by (simp add: fetchWeatherByCoords_def fetchWeatherByCoords_try_def setters Let_def
      split: outcome.split)

lemma fetchWeather_calls: "calls_of (new_events w (fetchWeatherByCoords e lat lon w)) = [FetchForecast lat lon]"
proof -
  from fetchWeather_trace [of e lat lon w] obtain es where
    "trace (fetchWeatherByCoords e lat lon w) =
       trace w @ [Mutated ((ui w)\<lparr>loading := True\<rparr>),
                  Mutated ((ui w)\<lparr>loading := True, error := None\<rparr>),
                  Mutated ((ui w)\<lparr>loading := True, error := None, weather := None\<rparr>),
                  Called (FetchForecast lat lon)] @ es"
    and "calls_of es = []" by blast
  then show ?thesis by (simp add: new_events_def)
qed

lemma fetchWeather_clear: "clear_at_calls s (new_events w (fetchWeatherByCoords e lat lon w))"
proof -
  from fetchWeather_trace [of e lat lon w] obtain es where
    "trace (fetchWeatherByCoords e lat lon w) =
       trace w @ [Mutated ((ui w)\<lparr>loading := True\<rparr>),
                  Mutated ((ui w)\<lparr>loading := True, error := None\<rparr>),
                  Mutated ((ui w)\<lparr>loading := True, error := None, weather := None\<rparr>),
                  Called (FetchForecast lat lon)] @ es"
    and "calls_of es = []" by blast
  then show ?thesis by (simp add: new_events_def clear_without_calls)
qed

lemma fetchWeather_extends: "trace (fetchWeatherByCoords e lat lon w) =
    trace w @ new_events w (fetchWeatherByCoords e lat lon w)"
  using fetchWeather_trace [of e lat lon w] by (auto simp add: new_events_def)

lemma fetchWeather_new_events_after:
  assumes "trace v = trace w @ pre"
  shows "new_events w (fetchWeatherByCoords e lat lon v) =
           pre @ new_events v (fetchWeatherByCoords e lat lon v)"
proof -
  have "trace (fetchWeatherByCoords e lat lon v) =
          trace w @ pre @ new_events v (fetchWeatherByCoords e lat lon v)"
    using fetchWeather_extends [of e lat lon v] assms by simp
  then show ?thesis by (simp add: new_events_def [of w])
qed

lemma fetchWeather_start:
  "take 4 (new_events w (fetchWeatherByCoords e lat lon w)) =
     [Mutated ((ui w)\<lparr>loading := True\<rparr>),
      Mutated ((ui w)\<lparr>loading := True, error := None\<rparr>),
      Mutated ((ui w)\<lparr>loading := True, error := None, weather := None\<rparr>),
      Called (FetchForecast lat lon)]"
  using fetchWeather_trace [of e lat lon w] by (auto simp add: new_events_def)

subsection \<open>\<^verbatim>\<open>fetchCoordsByCity\<close>\<close>

text \<open>
  The function as a chain of setter calls, one lemma for each way the geocoding exchange
  can end.
\<close>

lemma fetchCoords_found:
  "fetch_geocoding e n = Returns r \<Longrightarrow> ok r \<Longrightarrow> json r = Returns d \<Longrightarrow>
   results d = Some (c # cs) \<Longrightarrow>
   fetchCoordsByCity e n w =
     setLoading False
       (fetchWeatherByCoords e (cand_latitude c) (cand_longitude c)
          (setCity (cand_name c)
             (called (FetchGeocoding n)
                (setWeather None (setError None (setLoading True w))))))"
  by (simp add: fetchCoordsByCity_def fetchCoordsByCity_try_def)

lemma fetchCoords_throws:
  "fetch_geocoding e n = Throws err \<Longrightarrow>
   fetchCoordsByCity e n w =
     setLoading False
       (setError (Some (or_else (message err) ''Unknown error''))
          (called (FetchGeocoding n)
             (setWeather None (setError None (setLoading True w)))))"
  by (simp add: fetchCoordsByCity_def fetchCoordsByCity_try_def)

lemma fetchCoords_not_ok:
  "fetch_geocoding e n = Returns r \<Longrightarrow> \<not> ok r \<Longrightarrow>
   fetchCoordsByCity e n w =
     setLoading False
       (setError (Some ''Failed to fetch city coordinates'')
          (called (FetchGeocoding n)
             (setWeather None (setError None (setLoading True w)))))"
  by (simp add: fetchCoordsByCity_def fetchCoordsByCity_try_def or_else_def)

lemma fetchCoords_json_throws:
  "fetch_geocoding e n = Returns r \<Longrightarrow> ok r \<Longrightarrow> json r = Throws err \<Longrightarrow>
   fetchCoordsByCity e n w =
     setLoading False
       (setError (Some (or_else (message err) ''Unknown error''))
          (called (FetchGeocoding n)
             (setWeather None (setError None (setLoading True w)))))"
  by (simp add: fetchCoordsByCity_def fetchCoordsByCity_try_def)

lemma fetchCoords_no_candidate:
  "fetch_geocoding e n = Returns r \<Longrightarrow> ok r \<Longrightarrow> json r = Returns d \<Longrightarrow>
   results d = None \<or> results d = Some [] \<Longrightarrow>
   fetchCoordsByCity e n w =
     setLoading False
       (setError (Some ''City not found'')
          (called (FetchGeocoding n)
             (setWeather None (setError None (setLoading True w)))))"
  by (auto simp add: fetchCoordsByCity_def fetchCoordsByCity_try_def or_else_def)

lemma fetchCoords_fails:
  assumes "geocoding_fails (fetch_geocoding e n)"
  shows "\<exists>m. m \<noteq> [] \<and>
     fetchCoordsByCity e n w =
       setLoading False
         (setError (Some m)
            (called (FetchGeocoding n)
               (setWeather None (setError None (setLoading True w)))))"
proof (cases "fetch_geocoding e n")
  case (Throws err)
  show ?thesis
    using fetchCoords_throws [OF Throws, of w] or_else_nonempty [of "''Unknown error''" "message err"]
    by auto
next
  case (Returns r)
  show ?thesis
  proof (cases "ok r")
    case False
    show ?thesis using fetchCoords_not_ok [OF Returns False, of w] by auto
  next
    case True
    show ?thesis
    proof (cases "json r")
      case (Throws err)
      show ?thesis
        using fetchCoords_json_throws [OF Returns True Throws, of w]
          or_else_nonempty [of "''Unknown error''" "message err"]
        by auto
    next
      case body: (Returns d)
      from assms Returns True body have "results d = None \<or> results d = Some []"
        by (simp add: geocoding_fails_def split: option.splits)
      from fetchCoords_no_candidate [OF Returns True body this, of w] show ?thesis by auto
    qed
  qed
qed

lemma fetchCoords_loading: "\<not> loading (ui (fetchCoordsByCity e n w))"
  by (simp add: fetchCoordsByCity_def setters split: prod.split option.split)

lemma fetchCoords_inputCity: "inputCity (ui (fetchCoordsByCity e n w)) = inputCity (ui w)"
proof (cases "geocoding_fails (fetch_geocoding e n)")
  case True
  from fetchCoords_fails [OF True, of w] show ?thesis by (auto simp add: setters)
next
  case False
  then obtain r d c cs where "fetch_geocoding e n = Returns r" "ok r" "json r = Returns d"
      "results d = Some (c # cs)"
    by (auto simp add: geocoding_fails_def neq_Nil_conv split: outcome.splits if_splits option.splits)
  then show ?thesis by (simp add: fetchCoords_found fetchWeather_frame setters)
qed

lemma fetchCoords_found_ui:
  assumes "fetch_geocoding e n = Returns r" "ok r" "json r = Returns d"
    "results d = Some (c # cs)"
  shows "ui (fetchCoordsByCity e n w) =
     (ui w)\<lparr>city := cand_name c, loading := False,
       error := error (ui (fetchWeatherByCoords e (cand_latitude c) (cand_longitude c) w)),
       weather := weather (ui (fetchWeatherByCoords e (cand_latitude c) (cand_longitude c) w))\<rparr>"
proof -
  from fetchWeather_ui_shape [of e "cand_latitude c" "cand_longitude c"] obtain E W where
    "\<And>v. ui (fetchWeatherByCoords e (cand_latitude c) (cand_longitude c) v) =
            (ui v)\<lparr>loading := False, error := E, weather := W\<rparr>" by blast
  then show ?thesis by (simp add: fetchCoords_found [OF assms] setters)
qed

lemma same_inputCity:
  fixes a b :: presentation_state
  shows "inputCity a = inputCity b \<Longrightarrow>
   a\<lparr>city := c, loading := l, error := x, weather := y\<rparr> =
   b\<lparr>city := c, loading := l, error := x, weather := y\<rparr>"
  by (cases a, cases b) simp

lemma fetchCoords_shape:
  "\<exists>es. new_events w (fetchCoordsByCity e n w) =
          [Mutated ((ui w)\<lparr>loading := True\<rparr>),
           Mutated ((ui w)\<lparr>loading := True, error := None\<rparr>),
           Mutated ((ui w)\<lparr>loading := True, error := None, weather := None\<rparr>),
           Called (FetchGeocoding n)] @ es
        \<and> clear_at_calls ((ui w)\<lparr>loading := True, error := None, weather := None\<rparr>) es
        \<and> (geocoding_fails (fetch_geocoding e n) \<longrightarrow> calls_of es = [])"
proof (cases "geocoding_fails (fetch_geocoding e n)")
  case True
  from fetchCoords_fails [OF True, of w] obtain m where
    "fetchCoordsByCity e n w =
       setLoading False
         (setError (Some m)
            (called (FetchGeocoding n)
               (setWeather None (setError None (setLoading True w)))))" by blast
  then show ?thesis by (simp add: new_events_def setters)
next
  case False
  then obtain r d c cs where "fetch_geocoding e n = Returns r" "ok r" "json r = Returns d"
      "results d = Some (c # cs)"
    by (auto simp add: geocoding_fails_def neq_Nil_conv split: outcome.splits if_splits option.splits)
  then have eq: "fetchCoordsByCity e n w =
     setLoading False
       (fetchWeatherByCoords e (cand_latitude c) (cand_longitude c)
          (setCity (cand_name c)
             (called (FetchGeocoding n)
                (setWeather None (setError None (setLoading True w))))))"
    by (rule fetchCoords_found)
  define v where "v = setCity (cand_name c)
             (called (FetchGeocoding n)
                (setWeather None (setError None (setLoading True w))))"
  have tv: "trace v = trace w @
          [Mutated ((ui w)\<lparr>loading := True\<rparr>),
           Mutated ((ui w)\<lparr>loading := True, error := None\<rparr>),
           Mutated ((ui w)\<lparr>loading := True, error := None, weather := None\<rparr>),
           Called (FetchGeocoding n),
           Mutated ((ui w)\<lparr>loading := True, error := None, weather := None, city := cand_name c\<rparr>)]"
    by (simp add: v_def setters)
  have uv: "ui v = (ui w)\<lparr>loading := True, error := None, weather := None, city := cand_name c\<rparr>"
    by (simp add: v_def setters)
  have "new_events w (fetchCoordsByCity e n w) =
          [Mutated ((ui w)\<lparr>loading := True\<rparr>),
           Mutated ((ui w)\<lparr>loading := True, error := None\<rparr>),
           Mutated ((ui w)\<lparr>loading := True, error := None, weather := None\<rparr>),
           Called (FetchGeocoding n)] @
          (Mutated (ui v) # new_events v (fetchWeatherByCoords e (cand_latitude c) (cand_longitude c) v)
            @ [Mutated ((ui (fetchWeatherByCoords e (cand_latitude c) (cand_longitude c) v))\<lparr>loading := False\<rparr>)])"
    unfolding eq v_def [symmetric]
    by (simp add: new_events_def [of w] setLoading_def
        fetchWeather_extends [of e "cand_latitude c" "cand_longitude c" v] tv uv)
  moreover have "clear_at_calls ((ui w)\<lparr>loading := True, error := None, weather := None\<rparr>)
      (Mutated (ui v) # new_events v (fetchWeatherByCoords e (cand_latitude c) (cand_longitude c) v)
            @ [Mutated ((ui (fetchWeatherByCoords e (cand_latitude c) (cand_longitude c) v))\<lparr>loading := False\<rparr>)])"
  proof -
    from fetchWeather_trace [of e "cand_latitude c" "cand_longitude c" v] obtain es where
      "new_events v (fetchWeatherByCoords e (cand_latitude c) (cand_longitude c) v) =
         [Mutated ((ui v)\<lparr>loading := True\<rparr>),
          Mutated ((ui v)\<lparr>loading := True, error := None\<rparr>),
          Mutated ((ui v)\<lparr>loading := True, error := None, weather := None\<rparr>),
          Called (FetchForecast (cand_latitude c) (cand_longitude c))] @ es"
      and "calls_of es = []" by (auto simp add: new_events_def)
    then show ?thesis by (simp add: clear_without_calls calls_of_append)
  qed
  ultimately show ?thesis using False by blast
qed

subsection \<open>The mount effect\<close>

lemma mount_events:
  "new_events w (mountEffect e w) =
     [Mutated ((ui w)\<lparr>city := ''Berlin''\<rparr>)] @
     new_events (setCity ''Berlin'' w) (fetchWeatherByCoords e 52.52 13.41 (setCity ''Berlin'' w))"
proof -
  have "trace (setCity ''Berlin'' w) = trace w @ [Mutated ((ui w)\<lparr>city := ''Berlin''\<rparr>)]"
    by (simp add: setters)
  then show ?thesis unfolding mountEffect_def by (rule fetchWeather_new_events_after)
qed

subsection \<open>\<^verbatim>\<open>handleLocateMe\<close>\<close>

lemma reverseGeocode_world:
  "reverseGeocodeStep e pos w =
     setCity
       (case reverseGeocodeAsync e (coords_latitude pos) (coords_longitude pos) of
          Throws err \<Rightarrow> ''Your Location''
        | Returns None \<Rightarrow> ''Your Location''
        | Returns (Some []) \<Rightarrow> ''Your Location''
        | Returns (Some (p # ps)) \<Rightarrow>
            or_else (place_city p)
              (or_else (place_region p) (or_else (place_country p) ''Your Location'')))
       (called (ReverseGeocode (coords_latitude pos) (coords_longitude pos)) w)"
  by (simp add: reverseGeocodeStep_def Let_def split: outcome.split option.split list.split)

lemma reverseGeocode_label_nonempty:
  "(case a of
      Throws err \<Rightarrow> ''Your Location''
    | Returns None \<Rightarrow> ''Your Location''
    | Returns (Some []) \<Rightarrow> ''Your Location''
    | Returns (Some (p # ps)) \<Rightarrow>
        or_else (place_city p)
          (or_else (place_region p) (or_else (place_country p) ''Your Location''))) \<noteq> []"
  by (simp add: or_else_nonempty split: outcome.split option.split list.split)

lemma locateMe_denied:
  "requestForegroundPermissionsAsync e = Returns status \<Longrightarrow> status \<noteq> ''granted'' \<Longrightarrow>
   handleLocateMe e w =
     setLoading False
       (setError (Some ''Permission to access location was denied'')
         (called RequestForegroundPermissions
            (setWeather None (setError None (setLoading True w)))))"
  by (simp add: handleLocateMe_def handleLocateMe_try_def)

lemma locateMe_permission_throws:
  "requestForegroundPermissionsAsync e = Throws err \<Longrightarrow>
   handleLocateMe e w =
     setLoading False
       (setError (Some (or_else (message err) ''Could not get location''))
         (called RequestForegroundPermissions
            (setWeather None (setError None (setLoading True w)))))"
  by (simp add: handleLocateMe_def handleLocateMe_try_def)

lemma locateMe_position_throws:
  "requestForegroundPermissionsAsync e = Returns ''granted'' \<Longrightarrow>
   getCurrentPositionAsync e = Throws err \<Longrightarrow>
   handleLocateMe e w =
     setLoading False
       (setError (Some (or_else (message err) ''Could not get location''))
         (called GetCurrentPosition
           (called RequestForegroundPermissions
              (setWeather None (setError None (setLoading True w))))))"
  by (simp add: handleLocateMe_def handleLocateMe_try_def)

lemma locateMe_located:
  "requestForegroundPermissionsAsync e = Returns ''granted'' \<Longrightarrow>
   getCurrentPositionAsync e = Returns pos \<Longrightarrow>
   handleLocateMe e w =
     fetchWeatherByCoords e (coords_latitude pos) (coords_longitude pos)
       (reverseGeocodeStep e pos
         (called GetCurrentPosition
           (called RequestForegroundPermissions
              (setWeather None (setError None (setLoading True w))))))"
  by (simp add: handleLocateMe_def handleLocateMe_try_def)

lemma locateMe_loading: "\<not> loading (ui (handleLocateMe e w))"
proof (cases "requestForegroundPermissionsAsync e")
  case (Throws err)
  show ?thesis by (simp add: locateMe_permission_throws [OF Throws] setters)
next
  case (Returns status)
  show ?thesis
  proof (cases "status = ''granted''")
    case False
    show ?thesis by (simp add: locateMe_denied [OF Returns False] setters)
  next
    case True
    with Returns have granted: "requestForegroundPermissionsAsync e = Returns ''granted''"
      by simp
    show ?thesis
    proof (cases "getCurrentPositionAsync e")
      case (Throws err)
      show ?thesis by (simp add: locateMe_position_throws [OF granted Throws] setters)
    next
      case pos: (Returns pos)
      show ?thesis by (simp add: locateMe_located [OF granted pos] fetchWeather_loading)
    qed
  qed
qed

lemma locateMe_located_events:
  assumes "requestForegroundPermissionsAsync e = Returns ''granted''"
    and "getCurrentPositionAsync e = Returns pos"
    and "v = reverseGeocodeStep e pos
               (called GetCurrentPosition
                 (called RequestForegroundPermissions
                    (setWeather None (setError None (setLoading True w)))))"
  shows "handleLocateMe e w =
           fetchWeatherByCoords e (coords_latitude pos) (coords_longitude pos) v"
    and "ui v = (ui w)\<lparr>loading := True, error := None, weather := None,
                 city := (case reverseGeocodeAsync e (coords_latitude pos) (coords_longitude pos) of
                            Throws err \<Rightarrow> ''Your Location''
                          | Returns None \<Rightarrow> ''Your Location''
                          | Returns (Some []) \<Rightarrow> ''Your Location''
                          | Returns (Some (p # ps)) \<Rightarrow>
                              or_else (place_city p)
                                (or_else (place_region p)
                                   (or_else (place_country p) ''Your Location'')))\<rparr>"
    and "new_events w (handleLocateMe e w) =
           [Mutated ((ui w)\<lparr>loading := True\<rparr>),
            Mutated ((ui w)\<lparr>loading := True, error := None\<rparr>),
            Mutated ((ui w)\<lparr>loading := True, error := None, weather := None\<rparr>),
            Called RequestForegroundPermissions,
            Called GetCurrentPosition,
            Called (ReverseGeocode (coords_latitude pos) (coords_longitude pos)),
            Mutated (ui v)] @
           new_events v (fetchWeatherByCoords e (coords_latitude pos) (coords_longitude pos) v)"
proof -
  show eq: "handleLocateMe e w =
           fetchWeatherByCoords e (coords_latitude pos) (coords_longitude pos) v"
    unfolding assms(3) using assms(1,2) by (rule locateMe_located)
  show uv: "ui v = (ui w)\<lparr>loading := True, error := None, weather := None,
                 city := (case reverseGeocodeAsync e (coords_latitude pos) (coords_longitude pos) of
                            Throws err \<Rightarrow> ''Your Location''
                          | Returns None \<Rightarrow> ''Your Location''
                          | Returns (Some []) \<Rightarrow> ''Your Location''
                          | Returns (Some (p # ps)) \<Rightarrow>
                              or_else (place_city p)
                                (or_else (place_region p)
                                   (or_else (place_country p) ''Your Location'')))\<rparr>"
    unfolding assms(3) reverseGeocode_world by (simp add: setters)
  have tv: "trace v = trace w @
           [Mutated ((ui w)\<lparr>loading := True\<rparr>),
            Mutated ((ui w)\<lparr>loading := True, error := None\<rparr>),
            Mutated ((ui w)\<lparr>loading := True, error := None, weather := None\<rparr>),
            Called RequestForegroundPermissions,
            Called GetCurrentPosition,
            Called (ReverseGeocode (coords_latitude pos) (coords_longitude pos)),
            Mutated (ui v)]"
    unfolding uv unfolding assms(3) reverseGeocode_world by (simp add: setters)
  show "new_events w (handleLocateMe e w) =
           [Mutated ((ui w)\<lparr>loading := True\<rparr>),
            Mutated ((ui w)\<lparr>loading := True, error := None\<rparr>),
            Mutated ((ui w)\<lparr>loading := True, error := None, weather := None\<rparr>),
            Called RequestForegroundPermissions,
            Called GetCurrentPosition,
            Called (ReverseGeocode (coords_latitude pos) (coords_longitude pos)),
            Mutated (ui v)] @
           new_events v (fetchWeatherByCoords e (coords_latitude pos) (coords_longitude pos) v)"
    unfolding eq
    by (simp add: new_events_def [of w]
        fetchWeather_extends [of e "coords_latitude pos" "coords_longitude pos" v] tv)
qed

lemma locateMe_shape:
  "\<exists>es. new_events w (handleLocateMe e w) =
          [Mutated ((ui w)\<lparr>loading := True\<rparr>),
           Mutated ((ui w)\<lparr>loading := True, error := None\<rparr>),
           Mutated ((ui w)\<lparr>loading := True, error := None, weather := None\<rparr>),
           Called RequestForegroundPermissions] @ es
        \<and> clear_at_calls ((ui w)\<lparr>loading := True, error := None, weather := None\<rparr>) es"
proof (cases "requestForegroundPermissionsAsync e")
  case (Throws err)
  show ?thesis by (simp add: locateMe_permission_throws [OF Throws] setters new_events_def)
next
  case (Returns status)
  show ?thesis
  proof (cases "status = ''granted''")
    case False
    show ?thesis by (simp add: locateMe_denied [OF Returns False] setters new_events_def)
  next
    case True
    with Returns have granted: "requestForegroundPermissionsAsync e = Returns ''granted''"
      by simp
    show ?thesis
    proof (cases "getCurrentPositionAsync e")
      case (Throws err)
      show ?thesis by (simp add: locateMe_position_throws [OF granted Throws] setters new_events_def)
    next
      case pos: (Returns pos)
      define v where "v = reverseGeocodeStep e pos
               (called GetCurrentPosition
                 (called RequestForegroundPermissions
                    (setWeather None (setError None (setLoading True w)))))"
      note ev = locateMe_located_events(3) [OF granted pos v_def]
      have "clear_at_calls (ui v)
              (new_events v (fetchWeatherByCoords e (coords_latitude pos) (coords_longitude pos) v))"
        by (rule fetchWeather_clear)
      then show ?thesis unfolding ev by simp
    qed
  qed
qed

subsection \<open>The sample search for Paris\<close>

lemma after_paris_ui:
  "ui after_paris =
     \<lparr>weather = Some \<lparr>temperature = 18.2, windspeed = 9.4,
                       latitude = Some 48.8566, longitude = Some 2.3522\<rparr>,
      loading = False, error = None, city = ''Paris'', inputCity = ''Paris''\<rparr>"
proof -
  have g: "fetch_geocoding paris_env ''Paris'' =
             Returns \<lparr>ok = True, json = Returns \<lparr>results = Some [paris]\<rparr>\<rparr>"
    by (simp add: paris_env_def)
  have f: "fetch_forecast paris_env (cand_latitude paris) (cand_longitude paris) =
             Returns \<lparr>ok = True,
                      json = Returns \<lparr>echoed_latitude = 48.86, echoed_longitude = 2.34,
                        current_weather = \<lparr>cw_temperature = 18.2, cw_windspeed = 9.4\<rparr>\<rparr>\<rparr>"
    by (simp add: paris_env_def)
  have "after_paris = fetchCoordsByCity paris_env ''Paris'' (setInputCity ''Paris'' fresh)"
    by (simp add: after_paris_def handleSearch_def setters trim_Paris)
  also have "\<dots> = setLoading False
       (fetchWeatherByCoords paris_env (cand_latitude paris) (cand_longitude paris)
          (setCity (cand_name paris)
             (called (FetchGeocoding ''Paris'')
                (setWeather None (setError None (setLoading True (setInputCity ''Paris'' fresh)))))))"
    using fetchCoords_found [OF g, where d = "\<lparr>results = Some [paris]\<rparr>" and c = paris and cs = "[]"]
    by simp
  finally have eq: "after_paris = setLoading False
       (fetchWeatherByCoords paris_env (cand_latitude paris) (cand_longitude paris)
          (setCity (cand_name paris)
             (called (FetchGeocoding ''Paris'')
                (setWeather None (setError None (setLoading True (setInputCity ''Paris'' fresh)))))))" .
  show ?thesis
    unfolding eq
    by (simp add: setLoading_def fetchWeather_ui_ok [OF f] setters fresh_def initialState_def;
        simp add: paris_def)
qed

subsection \<open>The stages make up the flows\<close>

text \<open>
  Run one after the other with the answers of one environment, the stages are the flow
  functions of the previous sections.
\<close>

lemma fetchWeather_staged:
  "fetchWeatherByCoords e lat lon w =
     fetchWeatherByCoords_resume lat lon (fetch_forecast e lat lon)
       (fetchWeatherByCoords_begin lat lon w)"
  by (simp add: fetchWeatherByCoords_def fetchWeatherByCoords_try_def
      fetchWeatherByCoords_resume_def fetchWeatherByCoords_begin_def Let_def
      split: outcome.split)

lemma fetchCoords_staged:
  "fetchCoordsByCity e n w =
     (case fetchCoordsByCity_resume (fetch_geocoding e n) (fetchCoordsByCity_begin n w) of
        (None, w') \<Rightarrow> w'
      | (Some (lat, lon), w') \<Rightarrow>
          fetchCoordsByCity_finish lat lon (fetch_forecast e lat lon) w')"
  by (simp add: fetchCoordsByCity_def fetchCoordsByCity_try_def fetchCoordsByCity_resume_def
      fetchCoordsByCity_begin_def fetchCoordsByCity_finish_def fetchWeather_staged Let_def
      split: outcome.split option.split list.split)

section \<open>The claims\<close>

subsection \<open>C1: the loading flag is down once a flow has settled\<close>

text \<open>
  Claim C1. Whatever the collaborators answer, the mount effect, \<^verbatim>\<open>handleLocateMe\<close>
  and \<^verbatim>\<open>fetchCoordsByCity\<close> end with \<open>loading = False\<close>, and so does
  \<^verbatim>\<open>handleSearch\<close> whenever the trimmed input is not empty (with an empty input it
  starts no flow). Every flow is a total function here, so each one does settle.
\<close>

theorem loading_false_after_every_flow:
  "\<not> loading (ui (mountEffect e w)) \<and>
   \<not> loading (ui (handleLocateMe e w)) \<and>
   \<not> loading (ui (fetchCoordsByCity e n w)) \<and>
   (trim (inputCity (ui w)) \<noteq> [] \<longrightarrow> \<not> loading (ui (handleSearch e w)))"
  by (simp add: mountEffect_def fetchWeather_loading locateMe_loading fetchCoords_loading handleSearch_def)

text \<open>
  The search for Paris with every network call failing: the input is not blank and the
  flag is down at the end.
\<close>

theorem loading_false_after_every_flow_witness:
  "trim (inputCity (ui (setInputCity ''Paris'' fresh))) \<noteq> [] \<and>
   \<not> loading (ui (handleSearch offline_env (setInputCity ''Paris'' fresh)))"
  using loading_false_after_every_flow [of offline_env "setInputCity ''Paris'' fresh"]
  by (simp add: setters trim_def is_white_space_def)

subsection \<open>C2: the order of the Start step\<close>

text \<open>
  Claim C2 says that the snapshot and the error are cleared before the loading flag is
  raised. The code raises the flag first (lines 20, 44 and 79). After a successful search
  for Paris, the first setter call of \<^verbatim>\<open>handleLocateMe\<close> leaves \<open>loading = True\<close>
  with the Paris snapshot still in place.
\<close>

theorem stale_snapshot_while_loading:
  "hd (new_events after_paris (handleLocateMe denied_env after_paris)) =
     Mutated
       \<lparr>weather = Some \<lparr>temperature = 18.2, windspeed = 9.4,
                         latitude = Some 48.8566, longitude = Some 2.3522\<rparr>,
        loading = True, error = None, city = ''Paris'', inputCity = ''Paris''\<rparr>"
proof -
  have "requestForegroundPermissionsAsync denied_env = Returns ''denied''"
    by (simp add: denied_env_def)
  then have "handleLocateMe denied_env after_paris =
     setLoading False
       (setError (Some ''Permission to access location was denied'')
         (called RequestForegroundPermissions
            (setWeather None (setError None (setLoading True after_paris)))))"
    by (rule locateMe_denied) simp
  then show ?thesis by (simp add: new_events_def setters after_paris_ui)
qed

text \<open>
  Claim C2 as amended. Each flow begins by raising \<open>loading\<close>, then clearing
  \<open>error\<close>, then clearing \<open>weather\<close>, and only then makes its first external call;
  nothing suspends between the three setter calls. At every external call a flow makes,
  that is at every point where it suspends, \<open>loading\<close> is up and neither a snapshot
  nor an error is present.
\<close>

theorem start_raises_loading_then_clears:
  "take 4 (new_events w (fetchWeatherByCoords e lat lon w)) =
     [Mutated ((ui w)\<lparr>loading := True\<rparr>),
      Mutated ((ui w)\<lparr>loading := True, error := None\<rparr>),
      Mutated ((ui w)\<lparr>loading := True, error := None, weather := None\<rparr>),
      Called (FetchForecast lat lon)] \<and>
   take 4 (new_events w (fetchCoordsByCity e n w)) =
     [Mutated ((ui w)\<lparr>loading := True\<rparr>),
      Mutated ((ui w)\<lparr>loading := True, error := None\<rparr>),
      Mutated ((ui w)\<lparr>loading := True, error := None, weather := None\<rparr>),
      Called (FetchGeocoding n)] \<and>
   take 4 (new_events w (handleLocateMe e w)) =
     [Mutated ((ui w)\<lparr>loading := True\<rparr>),
      Mutated ((ui w)\<lparr>loading := True, error := None\<rparr>),
      Mutated ((ui w)\<lparr>loading := True, error := None, weather := None\<rparr>),
      Called RequestForegroundPermissions] \<and>
   clear_at_calls (ui w) (new_events w (handleSearch e w)) \<and>
   clear_at_calls (ui w) (new_events w (handleLocateMe e w)) \<and>
   clear_at_calls (ui w) (new_events w (mountEffect e w))"
proof -
  from fetchCoords_shape [of w e n] obtain es where
    fc: "new_events w (fetchCoordsByCity e n w) =
          [Mutated ((ui w)\<lparr>loading := True\<rparr>),
           Mutated ((ui w)\<lparr>loading := True, error := None\<rparr>),
           Mutated ((ui w)\<lparr>loading := True, error := None, weather := None\<rparr>),
           Called (FetchGeocoding n)] @ es" by blast
  from locateMe_shape [of w e] obtain ls where
    lm: "new_events w (handleLocateMe e w) =
          [Mutated ((ui w)\<lparr>loading := True\<rparr>),
           Mutated ((ui w)\<lparr>loading := True, error := None\<rparr>),
           Mutated ((ui w)\<lparr>loading := True, error := None, weather := None\<rparr>),
           Called RequestForegroundPermissions] @ ls"
    and lc: "clear_at_calls ((ui w)\<lparr>loading := True, error := None, weather := None\<rparr>) ls"
    by blast
  have search: "clear_at_calls (ui w) (new_events w (handleSearch e w))"
  proof (cases "trim (inputCity (ui w)) = []")
    case True
    then show ?thesis by (simp add: handleSearch_def new_events_def)
  next
    case False
    from fetchCoords_shape [of w e "trim (inputCity (ui w))"] obtain ss where
      "new_events w (fetchCoordsByCity e (trim (inputCity (ui w))) w) =
          [Mutated ((ui w)\<lparr>loading := True\<rparr>),
           Mutated ((ui w)\<lparr>loading := True, error := None\<rparr>),
           Mutated ((ui w)\<lparr>loading := True, error := None, weather := None\<rparr>),
           Called (FetchGeocoding (trim (inputCity (ui w))))] @ ss"
      and "clear_at_calls ((ui w)\<lparr>loading := True, error := None, weather := None\<rparr>) ss"
      by blast
    with False show ?thesis by (simp add: handleSearch_def)
  qed
  have mount: "clear_at_calls (ui w) (new_events w (mountEffect e w))"
  proof -
    have "trace (setCity ''Berlin'' w) = trace w @ [Mutated ((ui w)\<lparr>city := ''Berlin''\<rparr>)]"
      by (simp add: setters)
    then have "new_events w (mountEffect e w) =
        [Mutated ((ui w)\<lparr>city := ''Berlin''\<rparr>)] @
        new_events (setCity ''Berlin'' w) (fetchWeatherByCoords e 52.52 13.41 (setCity ''Berlin'' w))"
      unfolding mountEffect_def by (rule fetchWeather_new_events_after)
    then show ?thesis by (simp add: fetchWeather_clear)
  qed
  show ?thesis by (simp add: fetchWeather_start fc lm lc search mount)
qed

text \<open>
  The same run as above: the snapshot goes with the third setter call, before the
  permission request.
\<close>

theorem start_raises_loading_then_clears_witness:
  "take 4 (new_events after_paris (handleLocateMe denied_env after_paris)) =
     [Mutated
        \<lparr>weather = Some \<lparr>temperature = 18.2, windspeed = 9.4,
                          latitude = Some 48.8566, longitude = Some 2.3522\<rparr>,
         loading = True, error = None, city = ''Paris'', inputCity = ''Paris''\<rparr>,
      Mutated
        \<lparr>weather = Some \<lparr>temperature = 18.2, windspeed = 9.4,
                          latitude = Some 48.8566, longitude = Some 2.3522\<rparr>,
         loading = True, error = None, city = ''Paris'', inputCity = ''Paris''\<rparr>,
      Mutated
        \<lparr>weather = None, loading = True, error = None, city = ''Paris'',
         inputCity = ''Paris''\<rparr>,
      Called RequestForegroundPermissions] \<and>
   clear_at_calls (ui after_paris) (new_events after_paris (handleLocateMe denied_env after_paris))"
  using start_raises_loading_then_clears [where w = after_paris and e = denied_env and lat = 0 and lon = 0 and n = "[]"]
  by (simp add: after_paris_ui)

subsection \<open>C3: a blank search does nothing\<close>

text \<open>
  Claim C3. When the input is empty or consists of white space only, \<^verbatim>\<open>handleSearch\<close>
  returns the world as it found it: no state cell changes and no event, so no setter
  call and no external call, is added to the trace.
\<close>

theorem blank_search_is_noop:
  "(\<forall>c\<in>set (inputCity (ui w)). is_white_space c) \<Longrightarrow>
   handleSearch e w = w \<and> new_events w (handleSearch e w) = []"
  by (simp add: handleSearch_def trim_empty_iff new_events_def)

text \<open>
  Two spaces typed into the field after the search for Paris.
\<close>

theorem blank_search_is_noop_witness:
  "trim (inputCity (ui (setInputCity ''  '' after_paris))) = [] \<and>
   handleSearch offline_env (setInputCity ''  '' after_paris) = setInputCity ''  '' after_paris \<and>
   new_events (setInputCity ''  '' after_paris)
     (handleSearch offline_env (setInputCity ''  '' after_paris)) = []"
  using blank_search_is_noop [of "setInputCity ''  '' after_paris" offline_env]
  by (simp add: setters is_white_space_def trim_def new_events_def)

subsection \<open>C4: location permission not granted\<close>

text \<open>
  Claim C4. When the permission request answers with any status other than
  \<^verbatim>\<open>granted\<close>, \<^verbatim>\<open>handleLocateMe\<close> ends with exactly the message of line 84 in
  \<open>error\<close>, with \<open>loading = False\<close> and no snapshot, and the permission request is the
  only external call it made: no position read, no reverse geocoding, no forecast fetch.
\<close>

theorem permission_denied_terminates:
  assumes "requestForegroundPermissionsAsync e = Returns status"
    and "status \<noteq> ''granted''"
  shows "error (ui (handleLocateMe e w)) = Some ''Permission to access location was denied'' \<and>
         \<not> loading (ui (handleLocateMe e w)) \<and>
         weather (ui (handleLocateMe e w)) = None \<and>
         calls_of (new_events w (handleLocateMe e w)) = [RequestForegroundPermissions]"
  by (simp add: locateMe_denied [OF assms] setters new_events_def)

text \<open>
  A denied request after the search for Paris.
\<close>

theorem permission_denied_terminates_witness:
  "requestForegroundPermissionsAsync denied_env = Returns ''denied'' \<and>
   ''denied'' \<noteq> ''granted'' \<and>
   error (ui (handleLocateMe denied_env after_paris)) =
     Some ''Permission to access location was denied'' \<and>
   \<not> loading (ui (handleLocateMe denied_env after_paris)) \<and>
   weather (ui (handleLocateMe denied_env after_paris)) = None \<and>
   calls_of (new_events after_paris (handleLocateMe denied_env after_paris)) =
     [RequestForegroundPermissions]"
  using permission_denied_terminates [of denied_env "''denied''" after_paris]
  by (simp add: denied_env_def)

subsection \<open>C5: reverse geocoding is best effort\<close>

text \<open>
  Claim C5. With the permission granted and the position read, and for every answer of
  the reverse geocoder (it throws, it yields nothing, an empty list or a list of places):
  \<open>city\<close> ends as a non-empty string, taken from the first place by the order city,
  region, country, and the literal of lines 99 to 104 otherwise; the error the flow ends
  with is the one the forecast fetch alone produces, the same under any other answer
  \<open>g\<close> of the reverse geocoder; and the forecast is fetched after the reverse lookup
  in every case.
\<close>

theorem reverse_geocoding_never_fails:
  assumes "requestForegroundPermissionsAsync e = Returns ''granted''"
    and "getCurrentPositionAsync e = Returns pos"
  shows "city (ui (handleLocateMe e w)) \<noteq> [] \<and>
         city (ui (handleLocateMe e w)) =
           (case reverseGeocodeAsync e (coords_latitude pos) (coords_longitude pos) of
              Throws err \<Rightarrow> ''Your Location''
            | Returns None \<Rightarrow> ''Your Location''
            | Returns (Some []) \<Rightarrow> ''Your Location''
            | Returns (Some (p # ps)) \<Rightarrow>
                if present (place_city p) then the (place_city p)
                else if present (place_region p) then the (place_region p)
                else if present (place_country p) then the (place_country p)
                else ''Your Location'') \<and>
         error (ui (handleLocateMe e w)) =
           error (ui (fetchWeatherByCoords e (coords_latitude pos) (coords_longitude pos) w)) \<and>
         error (ui (handleLocateMe (e\<lparr>reverseGeocodeAsync := g\<rparr>) w)) =
           error (ui (handleLocateMe e w)) \<and>
         calls_of (new_events w (handleLocateMe e w)) =
           [RequestForegroundPermissions, GetCurrentPosition,
            ReverseGeocode (coords_latitude pos) (coords_longitude pos),
            FetchForecast (coords_latitude pos) (coords_longitude pos)]"
proof -
  define v where "v = reverseGeocodeStep e pos
               (called GetCurrentPosition
                 (called RequestForegroundPermissions
                    (setWeather None (setError None (setLoading True w)))))"
  note located = locateMe_located_events [OF assms v_def]
  have label: "city (ui (handleLocateMe e w)) =
      (case reverseGeocodeAsync e (coords_latitude pos) (coords_longitude pos) of
         Throws err \<Rightarrow> ''Your Location''
       | Returns None \<Rightarrow> ''Your Location''
       | Returns (Some []) \<Rightarrow> ''Your Location''
       | Returns (Some (p # ps)) \<Rightarrow>
           or_else (place_city p)
             (or_else (place_region p) (or_else (place_country p) ''Your Location'')))"
    unfolding located(1) by (simp add: fetchWeather_frame located(2))
  have nonempty: "city (ui (handleLocateMe e w)) \<noteq> []"
    unfolding label by (rule reverseGeocode_label_nonempty)
  have priority: "city (ui (handleLocateMe e w)) =
           (case reverseGeocodeAsync e (coords_latitude pos) (coords_longitude pos) of
              Throws err \<Rightarrow> ''Your Location''
            | Returns None \<Rightarrow> ''Your Location''
            | Returns (Some []) \<Rightarrow> ''Your Location''
            | Returns (Some (p # ps)) \<Rightarrow>
                if present (place_city p) then the (place_city p)
                else if present (place_region p) then the (place_region p)
                else if present (place_country p) then the (place_country p)
                else ''Your Location'')"
    unfolding label
    by (simp add: or_else_present split: outcome.split option.split list.split)
  have err: "error (ui (handleLocateMe e w)) =
           error (ui (fetchWeatherByCoords e (coords_latitude pos) (coords_longitude pos) w))"
    unfolding located(1) by (rule fetchWeather_error_any_world)
  have "requestForegroundPermissionsAsync (e\<lparr>reverseGeocodeAsync := g\<rparr>) = Returns ''granted''"
    and "getCurrentPositionAsync (e\<lparr>reverseGeocodeAsync := g\<rparr>) = Returns pos"
    using assms by simp_all
  then have "handleLocateMe (e\<lparr>reverseGeocodeAsync := g\<rparr>) w =
     fetchWeatherByCoords (e\<lparr>reverseGeocodeAsync := g\<rparr>) (coords_latitude pos) (coords_longitude pos)
       (reverseGeocodeStep (e\<lparr>reverseGeocodeAsync := g\<rparr>) pos
         (called GetCurrentPosition
           (called RequestForegroundPermissions
              (setWeather None (setError None (setLoading True w))))))"
    by (rule locateMe_located)
  then have indep: "error (ui (handleLocateMe (e\<lparr>reverseGeocodeAsync := g\<rparr>) w)) =
           error (ui (handleLocateMe e w))"
    unfolding err by (simp only: fetchWeather_ignores_reverse) (rule fetchWeather_error_any_world)
  have calls: "calls_of (new_events w (handleLocateMe e w)) =
           [RequestForegroundPermissions, GetCurrentPosition,
            ReverseGeocode (coords_latitude pos) (coords_longitude pos),
            FetchForecast (coords_latitude pos) (coords_longitude pos)]"
    unfolding located(3) by (simp add: calls_of_append fetchWeather_calls)
  from nonempty priority err indep calls show ?thesis by blast
qed

text \<open>
  A reverse geocoder that throws gives the literal and no error; one that knows a
  region but no city gives the region.
\<close>

theorem reverse_geocoding_never_fails_witness:
  "requestForegroundPermissionsAsync no_reverse_env = Returns ''granted'' \<and>
   getCurrentPositionAsync no_reverse_env =
     Returns \<lparr>coords_latitude = 48.8566, coords_longitude = 2.3522\<rparr> \<and>
   city (ui (handleLocateMe no_reverse_env fresh)) = ''Your Location'' \<and>
   error (ui (handleLocateMe no_reverse_env fresh)) = None \<and>
   city (ui (handleLocateMe paris_env fresh)) = ''Ile-de-France'' \<and>
   calls_of (new_events fresh (handleLocateMe no_reverse_env fresh)) =
     [RequestForegroundPermissions, GetCurrentPosition,
      ReverseGeocode 48.8566 2.3522, FetchForecast 48.8566 2.3522]"
proof -
  have f: "fetch_forecast no_reverse_env 48.8566 2.3522 =
             Returns \<lparr>ok = True,
                      json = Returns \<lparr>echoed_latitude = 48.86, echoed_longitude = 2.34,
                        current_weather = \<lparr>cw_temperature = 18.2, cw_windspeed = 9.4\<rparr>\<rparr>\<rparr>"
    by (simp add: no_reverse_env_def paris_env_def)
  have a: "requestForegroundPermissionsAsync no_reverse_env = Returns ''granted''"
    and b: "getCurrentPositionAsync no_reverse_env =
     Returns \<lparr>coords_latitude = 48.8566, coords_longitude = 2.3522\<rparr>"
    and a': "requestForegroundPermissionsAsync paris_env = Returns ''granted''"
    and b': "getCurrentPositionAsync paris_env =
     Returns \<lparr>coords_latitude = 48.8566, coords_longitude = 2.3522\<rparr>"
    by (simp_all add: no_reverse_env_def paris_env_def)
  have r: "reverseGeocodeAsync no_reverse_env 48.8566 2.3522 = Throws offline"
    by (simp add: no_reverse_env_def)
  have r': "reverseGeocodeAsync paris_env 48.8566 2.3522 =
      Returns (Some [\<lparr>place_city = None, place_region = Some ''Ile-de-France'',
                     place_country = Some ''France''\<rparr>])"
    by (simp add: paris_env_def)
  have e: "error (ui (fetchWeatherByCoords no_reverse_env 48.8566 2.3522 fresh)) = None"
    unfolding fetchWeather_ui_answer [OF f] by simp
  from reverse_geocoding_never_fails [OF a b, of fresh] reverse_geocoding_never_fails [OF a' b', of fresh] a b r r' e show ?thesis
    by (simp add: present_def)
qed

subsection \<open>C6: the snapshot carries the coordinate that was asked for\<close>

text \<open>
  Claim C6. When the forecast exchange succeeds, the snapshot holds the temperature and
  wind speed of the body and the latitude and longitude passed to
  \<^verbatim>\<open>fetchWeatherByCoords\<close>; the coordinate echoed in the body is not read. In the
  Paris scenario the search ends with the city Paris, the snapshot of the claim, the
  loading flag down and no error, whatever the body echoes.
\<close>

theorem snapshot_carries_input_coordinate:
  "(fetch_forecast e lat lon = Returns r \<and> ok r \<and> json r = Returns d \<longrightarrow>
      weather (ui (fetchWeatherByCoords e lat lon w)) =
        Some \<lparr>temperature = cw_temperature (current_weather d),
               windspeed = cw_windspeed (current_weather d),
               latitude = Some lat, longitude = Some lon\<rparr>) \<and>
   (trim (inputCity (ui w')) = ''Paris'' \<and>
    fetch_geocoding e' ''Paris'' = Returns gr \<and> ok gr \<and>
    json gr = Returns \<lparr>results = Some [\<lparr>cand_latitude = 48.8566, cand_longitude = 2.3522,
                                           cand_name = ''Paris''\<rparr>]\<rparr> \<and>
    fetch_forecast e' 48.8566 2.3522 = Returns fr \<and> ok fr \<and> json fr = Returns fd \<and>
    current_weather fd = \<lparr>cw_temperature = 18.2, cw_windspeed = 9.4\<rparr> \<longrightarrow>
      ui (handleSearch e' w') =
        (ui w')\<lparr>city := ''Paris'',
                 weather := Some \<lparr>temperature = 18.2, windspeed = 9.4,
                                   latitude = Some 48.8566, longitude = Some 2.3522\<rparr>,
                 loading := False, error := None\<rparr>)"
proof (intro conjI impI)
  assume "fetch_forecast e lat lon = Returns r \<and> ok r \<and> json r = Returns d"
  then show "weather (ui (fetchWeatherByCoords e lat lon w)) =
        Some \<lparr>temperature = cw_temperature (current_weather d),
               windspeed = cw_windspeed (current_weather d),
               latitude = Some lat, longitude = Some lon\<rparr>"
    by (simp add: fetchWeather_ui_ok)
next
  let ?c = "\<lparr>cand_latitude = 48.8566, cand_longitude = 2.3522, cand_name = ''Paris''\<rparr>"
  assume a: "trim (inputCity (ui w')) = ''Paris'' \<and>
    fetch_geocoding e' ''Paris'' = Returns gr \<and> ok gr \<and>
    json gr = Returns \<lparr>results = Some [?c]\<rparr> \<and>
    fetch_forecast e' 48.8566 2.3522 = Returns fr \<and> ok fr \<and> json fr = Returns fd \<and>
    current_weather fd = \<lparr>cw_temperature = 18.2, cw_windspeed = 9.4\<rparr>"
  then have search: "handleSearch e' w' = fetchCoordsByCity e' ''Paris'' w'"
    by (simp add: handleSearch_def)
  from a have g: "fetch_geocoding e' ''Paris'' = Returns gr" "ok gr"
    "json gr = Returns \<lparr>results = Some [?c]\<rparr>" by simp_all
  have res: "results \<lparr>results = Some [?c]\<rparr> = Some (?c # [])" by simp
  from a have f: "fetch_forecast e' (cand_latitude ?c) (cand_longitude ?c) = Returns fr"
    "ok fr" "json fr = Returns fd" by simp_all
  from a have cw: "current_weather fd = \<lparr>cw_temperature = 18.2, cw_windspeed = 9.4\<rparr>"
    by simp
  have "ui (handleSearch e' w') =
     (ui w')\<lparr>city := cand_name ?c, loading := False,
       error := error (ui (fetchWeatherByCoords e' (cand_latitude ?c) (cand_longitude ?c) w')),
       weather := weather (ui (fetchWeatherByCoords e' (cand_latitude ?c) (cand_longitude ?c) w'))\<rparr>"
    unfolding search by (rule fetchCoords_found_ui [OF g res])
  also have "\<dots> = (ui w')\<lparr>city := ''Paris'',
                 weather := Some \<lparr>temperature = 18.2, windspeed = 9.4,
                                   latitude = Some 48.8566, longitude = Some 2.3522\<rparr>,
                 loading := False, error := None\<rparr>"
    unfolding fetchWeather_ui_ok [OF f] cw by simp
  finally show "ui (handleSearch e' w') =
        (ui w')\<lparr>city := ''Paris'',
                 weather := Some \<lparr>temperature = 18.2, windspeed = 9.4,
                                   latitude = Some 48.8566, longitude = Some 2.3522\<rparr>,
                 loading := False, error := None\<rparr>" .
qed

text \<open>
  The sample forecast echoes 48.86 and 2.34 for every request; the snapshots carry the
  requested coordinates.
\<close>

theorem snapshot_carries_input_coordinate_witness:
  "fetch_forecast paris_env 52.52 13.41 =
     Returns \<lparr>ok = True,
              json = Returns \<lparr>echoed_latitude = 48.86, echoed_longitude = 2.34,
                       current_weather = \<lparr>cw_temperature = 18.2, cw_windspeed = 9.4\<rparr>\<rparr>\<rparr> \<and>
   weather (ui (fetchWeatherByCoords paris_env 52.52 13.41 fresh)) =
     Some \<lparr>temperature = 18.2, windspeed = 9.4,
            latitude = Some 52.52, longitude = Some 13.41\<rparr> \<and>
   trim (inputCity (ui (setInputCity ''Paris'' fresh))) = ''Paris'' \<and>
   ui (handleSearch paris_env (setInputCity ''Paris'' fresh)) =
     \<lparr>weather = Some \<lparr>temperature = 18.2, windspeed = 9.4,
                       latitude = Some 48.8566, longitude = Some 2.3522\<rparr>,
      loading = False, error = None, city = ''Paris'', inputCity = ''Paris''\<rparr>"
  using snapshot_carries_input_coordinate [where e = paris_env and lat = "52.52" and lon = "13.41" and w = fresh
      and r = "\<lparr>ok = True,
              json = Returns \<lparr>echoed_latitude = 48.86, echoed_longitude = 2.34,
                       current_weather = \<lparr>cw_temperature = 18.2, cw_windspeed = 9.4\<rparr>\<rparr>\<rparr>"
      and d = "\<lparr>echoed_latitude = 48.86, echoed_longitude = 2.34,
                       current_weather = \<lparr>cw_temperature = 18.2, cw_windspeed = 9.4\<rparr>\<rparr>"
      and w' = "setInputCity ''Paris'' fresh" and e' = paris_env
      and gr = "\<lparr>ok = True, json = Returns \<lparr>results = Some [paris]\<rparr>\<rparr>"
      and fr = "\<lparr>ok = True,
              json = Returns \<lparr>echoed_latitude = 48.86, echoed_longitude = 2.34,
                       current_weather = \<lparr>cw_temperature = 18.2, cw_windspeed = 9.4\<rparr>\<rparr>\<rparr>"
      and fd = "\<lparr>echoed_latitude = 48.86, echoed_longitude = 2.34,
                       current_weather = \<lparr>cw_temperature = 18.2, cw_windspeed = 9.4\<rparr>\<rparr>"]
  by (simp add: paris_env_def paris_def setters fresh_def initialState_def trim_Paris)

subsection \<open>C7: the mount effect\<close>

text \<open>
  Claim C7. The first thing the mount effect does is to set \<open>city\<close> to Berlin; the city
  is Berlin at the end whatever the forecast exchange does; the only external call is the
  forecast for 52.52 and 13.41; and when that exchange succeeds the snapshot carries
  latitude 52.52 and longitude 13.41.
\<close>

theorem mount_sets_berlin_first:
  "hd (new_events w (mountEffect e w)) = Mutated ((ui w)\<lparr>city := ''Berlin''\<rparr>) \<and>
   city (ui (mountEffect e w)) = ''Berlin'' \<and>
   calls_of (new_events w (mountEffect e w)) = [FetchForecast 52.52 13.41] \<and>
   (fetch_forecast e 52.52 13.41 = Returns r \<and> ok r \<and> json r = Returns d \<longrightarrow>
      weather (ui (mountEffect e w)) =
        Some \<lparr>temperature = cw_temperature (current_weather d),
               windspeed = cw_windspeed (current_weather d),
               latitude = Some 52.52, longitude = Some 13.41\<rparr>)"
proof (intro conjI impI)
  show "hd (new_events w (mountEffect e w)) = Mutated ((ui w)\<lparr>city := ''Berlin''\<rparr>)"
    unfolding mount_events by simp
  show "city (ui (mountEffect e w)) = ''Berlin''"
    unfolding mountEffect_def by (simp add: fetchWeather_frame setters)
  show "calls_of (new_events w (mountEffect e w)) = [FetchForecast 52.52 13.41]"
    unfolding mount_events by (simp only: calls_of_append fetchWeather_calls calls_of.simps append.simps)
  assume "fetch_forecast e 52.52 13.41 = Returns r \<and> ok r \<and> json r = Returns d"
  then have f: "fetch_forecast e 52.52 13.41 = Returns r" "ok r" "json r = Returns d"
    by simp_all
  show "weather (ui (mountEffect e w)) =
        Some \<lparr>temperature = cw_temperature (current_weather d),
               windspeed = cw_windspeed (current_weather d),
               latitude = Some 52.52, longitude = Some 13.41\<rparr>"
    unfolding mountEffect_def fetchWeather_ui_ok [OF f] by simp
qed

text \<open>
  The mount effect on the initial state with a working network.
\<close>

theorem mount_sets_berlin_first_witness:
  "fetch_forecast paris_env 52.52 13.41 =
     Returns \<lparr>ok = True,
              json = Returns \<lparr>echoed_latitude = 48.86, echoed_longitude = 2.34,
                       current_weather = \<lparr>cw_temperature = 18.2, cw_windspeed = 9.4\<rparr>\<rparr>\<rparr> \<and>
   hd (new_events fresh (mountEffect paris_env fresh)) =
     Mutated \<lparr>weather = None, loading = False, error = None, city = ''Berlin'', inputCity = []\<rparr> \<and>
   city (ui (mountEffect paris_env fresh)) = ''Berlin'' \<and>
   calls_of (new_events fresh (mountEffect paris_env fresh)) = [FetchForecast 52.52 13.41] \<and>
   weather (ui (mountEffect paris_env fresh)) =
     Some \<lparr>temperature = 18.2, windspeed = 9.4,
            latitude = Some 52.52, longitude = Some 13.41\<rparr>"
  using mount_sets_berlin_first [where e = paris_env and w = fresh
      and r = "\<lparr>ok = True,
              json = Returns \<lparr>echoed_latitude = 48.86, echoed_longitude = 2.34,
                       current_weather = \<lparr>cw_temperature = 18.2, cw_windspeed = 9.4\<rparr>\<rparr>\<rparr>"
      and d = "\<lparr>echoed_latitude = 48.86, echoed_longitude = 2.34,
                       current_weather = \<lparr>cw_temperature = 18.2, cw_windspeed = 9.4\<rparr>\<rparr>"]
  by (simp add: paris_env_def fresh_def initialState_def)

subsection \<open>C8: forward geocoding fails\<close>

text \<open>
  Claim C8. When the geocoding exchange fails or yields no candidate, the search leaves
  \<open>city\<close> as it was, sets \<open>error\<close> to a non-empty message, leaves no snapshot, lowers
  \<open>loading\<close>, and makes the geocoding request as its only external call, so no
  forecast is fetched. With an empty candidate list the message is exactly that of
  line 52.
\<close>

theorem failed_geocoding_keeps_city:
  assumes "trim (inputCity (ui w)) = n" and "n \<noteq> []"
    and "geocoding_fails (fetch_geocoding e n)"
  shows "city (ui (handleSearch e w)) = city (ui w) \<and>
         error (ui (handleSearch e w)) \<noteq> None \<and>
         error (ui (handleSearch e w)) \<noteq> Some [] \<and>
         weather (ui (handleSearch e w)) = None \<and>
         \<not> loading (ui (handleSearch e w)) \<and>
         calls_of (new_events w (handleSearch e w)) = [FetchGeocoding n] \<and>
         (fetch_geocoding e n = Returns r \<and> ok r \<and> json r = Returns d \<and> results d = Some []
            \<longrightarrow> error (ui (handleSearch e w)) = Some ''City not found'')"
proof -
  have search: "handleSearch e w = fetchCoordsByCity e n w"
    using assms(1,2) by (simp add: handleSearch_def)
  from fetchCoords_fails [OF assms(3), of w] obtain m where m: "m \<noteq> []"
    and eq: "fetchCoordsByCity e n w =
       setLoading False
         (setError (Some m)
            (called (FetchGeocoding n)
               (setWeather None (setError None (setLoading True w)))))" by blast
  have state: "ui (handleSearch e w) = (ui w)\<lparr>loading := False, error := Some m, weather := None\<rparr>"
    unfolding search eq by (simp add: setters)
  have calls: "calls_of (new_events w (handleSearch e w)) = [FetchGeocoding n]"
    unfolding search eq by (simp add: setters new_events_def)
  have empty: "error (ui (handleSearch e w)) = Some ''City not found''"
    if "fetch_geocoding e n = Returns r \<and> ok r \<and> json r = Returns d \<and> results d = Some []"
  proof -
    from that have "fetchCoordsByCity e n w =
     setLoading False
       (setError (Some ''City not found'')
          (called (FetchGeocoding n)
             (setWeather None (setError None (setLoading True w)))))"
      by (intro fetchCoords_no_candidate [of e n r d]) simp_all
    then show ?thesis unfolding search by (simp add: setters)
  qed
  from m calls empty show ?thesis unfolding state by simp
qed

text \<open>
  The scenario of the specification, typed with a leading space after the search for
  Paris: the city stays Paris.
\<close>

theorem failed_geocoding_keeps_city_witness:
  "trim (inputCity (ui (setInputCity '' Zzzzznotacity'' after_paris))) = ''Zzzzznotacity'' \<and>
   geocoding_fails (fetch_geocoding unknown_city_env ''Zzzzznotacity'') \<and>
   city (ui (handleSearch unknown_city_env (setInputCity '' Zzzzznotacity'' after_paris))) = ''Paris'' \<and>
   error (ui (handleSearch unknown_city_env (setInputCity '' Zzzzznotacity'' after_paris))) =
     Some ''City not found'' \<and>
   weather (ui (handleSearch unknown_city_env (setInputCity '' Zzzzznotacity'' after_paris))) = None \<and>
   \<not> loading (ui (handleSearch unknown_city_env (setInputCity '' Zzzzznotacity'' after_paris))) \<and>
   calls_of (new_events (setInputCity '' Zzzzznotacity'' after_paris)
     (handleSearch unknown_city_env (setInputCity '' Zzzzznotacity'' after_paris))) =
     [FetchGeocoding ''Zzzzznotacity'']"
proof -
  have t: "trim (inputCity (ui (setInputCity '' Zzzzznotacity'' after_paris))) = ''Zzzzznotacity''"
    by (simp add: setters trim_def is_white_space_def)
  have g: "fetch_geocoding unknown_city_env ''Zzzzznotacity'' =
             Returns \<lparr>ok = True, json = Returns \<lparr>results = Some []\<rparr>\<rparr>"
    by (simp add: unknown_city_env_def)
  have f: "geocoding_fails (fetch_geocoding unknown_city_env ''Zzzzznotacity'')"
    unfolding g by (simp add: geocoding_fails_def)
  have c: "city (ui (setInputCity '' Zzzzznotacity'' after_paris)) = ''Paris''"
    by (simp add: setters after_paris_ui)
  from failed_geocoding_keeps_city [OF t _ f, of "\<lparr>ok = True, json = Returns \<lparr>results = Some []\<rparr>\<rparr>" "\<lparr>results = Some []\<rparr>"]
    t f g c
  show ?thesis by simp
qed

subsection \<open>C9: searching twice\<close>

text \<open>
  Claim C9 speaks of two searches in immediate sequence. The handler does not await the
  flow, so the second call runs while the first is suspended. Paris is typed and searched
  twice; both names resolve, the forecast request of the first call is rejected and that
  of the second is answered. The second flow cleared \<open>error\<close> before the first flow's
  \<^verbatim>\<open>catch\<close> set it, so the run ends with a snapshot and an error both present,
  and not in the state the second search reaches when run alone.
\<close>

theorem overlapping_searches_set_both:
  "ui (handleSearch_overlapped forecast_down_env paris_env (setInputCity ''Paris'' fresh)) =
     \<lparr>weather = Some \<lparr>temperature = 18.2, windspeed = 9.4,
                       latitude = Some 48.8566, longitude = Some 2.3522\<rparr>,
      loading = False, error = Some ''Network request failed'',
      city = ''Paris'', inputCity = ''Paris''\<rparr> \<and>
   ui (handleSearch paris_env (setInputCity ''Paris'' fresh)) =
     \<lparr>weather = Some \<lparr>temperature = 18.2, windspeed = 9.4,
                       latitude = Some 48.8566, longitude = Some 2.3522\<rparr>,
      loading = False, error = None, city = ''Paris'', inputCity = ''Paris''\<rparr>"
proof -
  have alone: "ui (handleSearch paris_env (setInputCity ''Paris'' fresh)) = ui after_paris"
    by (simp add: after_paris_def)
  have "ui (handleSearch_overlapped forecast_down_env paris_env (setInputCity ''Paris'' fresh)) =
     \<lparr>weather = Some \<lparr>temperature = 18.2, windspeed = 9.4,
                       latitude = Some 48.8566, longitude = Some 2.3522\<rparr>,
      loading = False, error = Some ''Network request failed'',
      city = ''Paris'', inputCity = ''Paris''\<rparr>"
    by (simp add: handleSearch_overlapped_def fetchCoordsByCity_begin_def
        fetchCoordsByCity_resume_def fetchCoordsByCity_finish_def
        fetchWeatherByCoords_begin_def fetchWeatherByCoords_resume_def
        forecast_down_env_def paris_env_def paris_def offline_def or_else_def
        setters fresh_def initialState_def trim_Paris Let_def)
  then show ?thesis unfolding alone after_paris_ui by simp
qed

text \<open>
  Claim C9 as amended. The same non-empty name is searched twice, the second search
  starting when the first has settled; the first may end in any way (environment
  \<open>e1\<close>), and in the second the name resolves (environment \<open>e2\<close>). Then \<open>loading\<close>
  is down, exactly one of \<open>weather\<close> and \<open>error\<close> is present, and the state equals the
  one the second search produces when run alone from the original state.
\<close>

theorem repeated_search_settles:
  assumes "trim (inputCity (ui w)) = n" and "n \<noteq> []"
    and "fetch_geocoding e2 n = Returns r" and "ok r" and "json r = Returns d"
    and "results d = Some (c # cs)"
  shows "\<not> loading (ui (handleSearch e2 (handleSearch e1 w))) \<and>
         (weather (ui (handleSearch e2 (handleSearch e1 w))) = None) \<noteq>
         (error (ui (handleSearch e2 (handleSearch e1 w))) = None) \<and>
         ui (handleSearch e2 (handleSearch e1 w)) = ui (handleSearch e2 w)"
proof -
  define w1 where "w1 = handleSearch e1 w"
  have first: "w1 = fetchCoordsByCity e1 n w"
    using assms(1,2) by (simp add: w1_def handleSearch_def)
  have input: "inputCity (ui w1) = inputCity (ui w)"
    unfolding first by (rule fetchCoords_inputCity)
  have second: "handleSearch e2 w1 = fetchCoordsByCity e2 n w1"
    using assms(1,2) input by (simp add: handleSearch_def)
  have alone: "handleSearch e2 w = fetchCoordsByCity e2 n w"
    using assms(1,2) by (simp add: handleSearch_def)
  from fetchWeather_ui_shape [of e2 "cand_latitude c" "cand_longitude c"] obtain E W where
    shape: "\<And>v. ui (fetchWeatherByCoords e2 (cand_latitude c) (cand_longitude c) v) =
            (ui v)\<lparr>loading := False, error := E, weather := W\<rparr>"
    and one: "(W = None) \<noteq> (E = None)" by blast
  have u1: "ui (handleSearch e2 w1) =
      (ui w1)\<lparr>city := cand_name c, loading := False, error := E, weather := W\<rparr>"
    unfolding second fetchCoords_found_ui [OF assms(3-6)] by (simp add: shape)
  have u: "ui (handleSearch e2 w) =
      (ui w)\<lparr>city := cand_name c, loading := False, error := E, weather := W\<rparr>"
    unfolding alone fetchCoords_found_ui [OF assms(3-6)] by (simp add: shape)
  have "ui (handleSearch e2 w1) = ui (handleSearch e2 w)"
    unfolding u1 u using input by (rule same_inputCity)
  moreover have "\<not> loading (ui (handleSearch e2 w1))" unfolding u1 by simp
  moreover have "(weather (ui (handleSearch e2 w1)) = None) \<noteq> (error (ui (handleSearch e2 w1)) = None)"
    unfolding u1 using one by simp
  ultimately show ?thesis unfolding w1_def by blast
qed

text \<open>
  A first search with the network down, then a second one that succeeds.
\<close>

theorem repeated_search_settles_witness:
  "trim (inputCity (ui (setInputCity ''Paris'' fresh))) = ''Paris'' \<and>
   fetch_geocoding paris_env ''Paris'' =
     Returns \<lparr>ok = True, json = Returns \<lparr>results = Some [paris]\<rparr>\<rparr> \<and>
   \<not> loading (ui (handleSearch paris_env (handleSearch offline_env (setInputCity ''Paris'' fresh)))) \<and>
   (weather (ui (handleSearch paris_env (handleSearch offline_env (setInputCity ''Paris'' fresh)))) = None) \<noteq>
   (error (ui (handleSearch paris_env (handleSearch offline_env (setInputCity ''Paris'' fresh)))) = None) \<and>
   ui (handleSearch paris_env (handleSearch offline_env (setInputCity ''Paris'' fresh))) =
     ui (handleSearch paris_env (setInputCity ''Paris'' fresh))"
proof -
  have t: "trim (inputCity (ui (setInputCity ''Paris'' fresh))) = ''Paris''"
    by (simp add: setters trim_Paris)
  have g: "fetch_geocoding paris_env ''Paris'' =
     Returns \<lparr>ok = True, json = Returns \<lparr>results = Some [paris]\<rparr>\<rparr>"
    by (simp add: paris_env_def)
  have "\<not> loading (ui (handleSearch paris_env (handleSearch offline_env (setInputCity ''Paris'' fresh)))) \<and>
   (weather (ui (handleSearch paris_env (handleSearch offline_env (setInputCity ''Paris'' fresh)))) = None) \<noteq>
   (error (ui (handleSearch paris_env (handleSearch offline_env (setInputCity ''Paris'' fresh)))) = None) \<and>
   ui (handleSearch paris_env (handleSearch offline_env (setInputCity ''Paris'' fresh))) =
     ui (handleSearch paris_env (setInputCity ''Paris'' fresh))"
    by (rule repeated_search_settles [OF t _ g, where d = "\<lparr>results = Some [paris]\<rparr>" and c = paris and cs = "[]"])
      simp_all
  with t g show ?thesis by blast
qed

subsection \<open>C10: the forecast fails after the name was resolved\<close>

text \<open>
  Claim C10. When geocoding yields a candidate and the forecast exchange then fails,
  nothing is rolled back: \<open>city\<close> is the candidate's name, there is no snapshot,
  \<open>loading\<close> is down, and \<open>error\<close> holds the message of the failure: the thrown
  value's message (or the fallback of line 35) when \<^verbatim>\<open>fetch\<close> or \<^verbatim>\<open>json()\<close>
  throws, the message of line 26 when the status is not a success.
\<close>

theorem failed_fetch_keeps_resolved_city:
  assumes "trim (inputCity (ui w)) = n" and "n \<noteq> []"
    and "fetch_geocoding e n = Returns r" and "ok r" and "json r = Returns d"
    and "results d = Some (c # cs)"
    and "http_fails (fetch_forecast e (cand_latitude c) (cand_longitude c))"
  shows "city (ui (handleSearch e w)) = cand_name c \<and>
         weather (ui (handleSearch e w)) = None \<and>
         \<not> loading (ui (handleSearch e w)) \<and>
         error (ui (handleSearch e w)) \<noteq> None \<and>
         (fetch_forecast e (cand_latitude c) (cand_longitude c) = Throws err \<longrightarrow>
            error (ui (handleSearch e w)) = Some (or_else (message err) ''Unknown error'')) \<and>
         (fetch_forecast e (cand_latitude c) (cand_longitude c) = Returns fr \<and> \<not> ok fr \<longrightarrow>
            error (ui (handleSearch e w)) = Some ''Failed to fetch weather'') \<and>
         (fetch_forecast e (cand_latitude c) (cand_longitude c) = Returns fr \<and> ok fr \<and>
            json fr = Throws err \<longrightarrow>
            error (ui (handleSearch e w)) = Some (or_else (message err) ''Unknown error''))"
proof -
  have search: "handleSearch e w = fetchCoordsByCity e n w"
    using assms(1,2) by (simp add: handleSearch_def)
  note state = fetchCoords_found_ui [OF assms(3-6), of w]
  note failed = fetchWeather_fails [OF assms(7), of w]
  have "city (ui (handleSearch e w)) = cand_name c"
    and "\<not> loading (ui (handleSearch e w))"
    and "weather (ui (handleSearch e w)) = None"
    and "error (ui (handleSearch e w)) \<noteq> None"
    unfolding search state using failed by simp_all
  moreover have "error (ui (handleSearch e w)) = Some (or_else (message err) ''Unknown error'')"
    if "fetch_forecast e (cand_latitude c) (cand_longitude c) = Throws err"
    unfolding search state by (simp add: fetchWeather_ui_throws [OF that])
  moreover have "error (ui (handleSearch e w)) = Some ''Failed to fetch weather''"
    if "fetch_forecast e (cand_latitude c) (cand_longitude c) = Returns fr \<and> \<not> ok fr"
  proof -
    from that have "fetch_forecast e (cand_latitude c) (cand_longitude c) = Returns fr" "\<not> ok fr"
      by simp_all
    then show ?thesis unfolding search state by (simp add: fetchWeather_ui_not_ok)
  qed
  moreover have "error (ui (handleSearch e w)) = Some (or_else (message err) ''Unknown error'')"
    if "fetch_forecast e (cand_latitude c) (cand_longitude c) = Returns fr \<and> ok fr \<and>
            json fr = Throws err"
  proof -
    from that have "fetch_forecast e (cand_latitude c) (cand_longitude c) = Returns fr" "ok fr"
      "json fr = Throws err" by simp_all
    then show ?thesis unfolding search state by (simp add: fetchWeather_ui_json_throws)
  qed
  ultimately show ?thesis by blast
qed

text \<open>
  The three kinds of failure after Paris was resolved, starting from an empty city.
\<close>

theorem failed_fetch_keeps_resolved_city_witness:
  "trim (inputCity (ui (setInputCity ''Paris'' fresh))) = ''Paris'' \<and>
   fetch_geocoding no_forecast_env ''Paris'' =
     Returns \<lparr>ok = True, json = Returns \<lparr>results = Some [paris]\<rparr>\<rparr> \<and>
   http_fails (fetch_forecast no_forecast_env (cand_latitude paris) (cand_longitude paris)) \<and>
   city (ui (setInputCity ''Paris'' fresh)) = [] \<and>
   city (ui (handleSearch no_forecast_env (setInputCity ''Paris'' fresh))) = ''Paris'' \<and>
   weather (ui (handleSearch no_forecast_env (setInputCity ''Paris'' fresh))) = None \<and>
   \<not> loading (ui (handleSearch no_forecast_env (setInputCity ''Paris'' fresh))) \<and>
   error (ui (handleSearch no_forecast_env (setInputCity ''Paris'' fresh))) =
     Some ''Failed to fetch weather'' \<and>
   error (ui (handleSearch (paris_env\<lparr>fetch_forecast := \<lambda>lat lon. Throws offline\<rparr>)
                (setInputCity ''Paris'' fresh))) = Some ''Network request failed'' \<and>
   error (ui (handleSearch
                (paris_env\<lparr>fetch_forecast :=
                   \<lambda>lat lon. Returns \<lparr>ok = True, json = Throws (Error None)\<rparr>\<rparr>)
                (setInputCity ''Paris'' fresh))) = Some ''Unknown error''"
proof -
  let ?w = "setInputCity ''Paris'' fresh"
  let ?thrown = "paris_env\<lparr>fetch_forecast := \<lambda>lat lon. Throws offline\<rparr>"
  let ?garbled = "paris_env\<lparr>fetch_forecast :=
                   \<lambda>lat lon. Returns \<lparr>ok = True, json = Throws (Error None)\<rparr>\<rparr>"
  have t: "trim (inputCity (ui ?w)) = ''Paris''"
    by (simp add: setters trim_Paris)
  have g: "fetch_geocoding no_forecast_env ''Paris'' =
     Returns \<lparr>ok = True, json = Returns \<lparr>results = Some [paris]\<rparr>\<rparr>"
    "fetch_geocoding ?thrown ''Paris'' =
     Returns \<lparr>ok = True, json = Returns \<lparr>results = Some [paris]\<rparr>\<rparr>"
    "fetch_geocoding ?garbled ''Paris'' =
     Returns \<lparr>ok = True, json = Returns \<lparr>results = Some [paris]\<rparr>\<rparr>"
    by (simp_all add: no_forecast_env_def paris_env_def)
  have f: "fetch_forecast no_forecast_env (cand_latitude paris) (cand_longitude paris) =
             Returns \<lparr>ok = False, json = Throws offline\<rparr>"
    "fetch_forecast ?thrown (cand_latitude paris) (cand_longitude paris) = Throws offline"
    "fetch_forecast ?garbled (cand_latitude paris) (cand_longitude paris) =
       Returns \<lparr>ok = True, json = Throws (Error None)\<rparr>"
    by (simp_all add: no_forecast_env_def)
  have h: "http_fails (fetch_forecast no_forecast_env (cand_latitude paris) (cand_longitude paris))"
    "http_fails (fetch_forecast ?thrown (cand_latitude paris) (cand_longitude paris))"
    "http_fails (fetch_forecast ?garbled (cand_latitude paris) (cand_longitude paris))"
    unfolding f by (simp_all add: http_fails_def)
  have r: "results \<lparr>results = Some [paris]\<rparr> = Some (paris # [])" by simp
  have c: "city (ui ?w) = []" by (simp add: setters fresh_def initialState_def)
  note a = failed_fetch_keeps_resolved_city [OF t _ g(1) _ _ r h(1), where fr = "\<lparr>ok = False, json = Throws offline\<rparr>"]
  note b = failed_fetch_keeps_resolved_city [OF t _ g(2) _ _ r h(2), where err = offline]
  note d = failed_fetch_keeps_resolved_city [OF t _ g(3) _ _ r h(3), where err = "Error None"
      and fr = "\<lparr>ok = True, json = Throws (Error None)\<rparr>"]
  from a b d t g(1) h(1) c f show ?thesis
    by (simp add: paris_def offline_def or_else_def)
qed

end
